theory Spec2Isabelle
  imports Complex_Main
begin

section \<open>JavaScript values\<close>

text \<open>
  The values that flow through the wrappers of \<^verbatim>\<open>backend/otel.js\<close> (tool inputs, tool
  results, metadata fields, console arguments) are JSON-like JavaScript values: \<^verbatim>\<open>undefined\<close>,
  \<^verbatim>\<open>null\<close>, booleans, numbers (finite, or \<^verbatim>\<open>NaN\<close>), strings, arrays and plain objects.
  An object is the list of its own enumerable properties in insertion order. A string is its
  list of code units; \<^verbatim>\<open>substring\<close> and \<^verbatim>\<open>length\<close> count code units. Functions, symbols,
  cyclic objects and the infinities are outside the model.
\<close>

datatype jsval =
    JUndefined
  | JNull
  | JBool bool
  | JNum rat
  | JNaN
  | JStr string
  | JArr "jsval list"
  | JObj "(string \<times> jsval) list"

text \<open>
  What is thrown is an \<^verbatim>\<open>Error\<close> instance, known by \<^verbatim>\<open>error.constructor.name\<close> and
  \<^verbatim>\<open>error.message\<close>.
\<close>

record js_error =
  err_name :: string
  err_message :: string

text \<open>What an awaited call yields: a value, or a thrown error (a rejected promise).\<close>

datatype 'a outcome = Returns 'a | Throws js_error

text \<open>ToBoolean: the operand test of \<^verbatim>\<open>if\<close>, \<^verbatim>\<open>&&\<close> and \<^verbatim>\<open>||\<close>.\<close>

fun truthy :: "jsval \<Rightarrow> bool" where
  "truthy JUndefined = False"
| "truthy JNull = False"
| "truthy (JBool b) = b"
| "truthy (JNum n) = (n \<noteq> 0)"
| "truthy JNaN = False"
| "truthy (JStr s) = (s \<noteq> [])"
| "truthy (JArr xs) = True"
| "truthy (JObj ps) = True"

text \<open>\<^verbatim>\<open>typeof v === 'object'\<close> (true of \<^verbatim>\<open>null\<close> as well).\<close>

fun typeof_object :: "jsval \<Rightarrow> bool" where
  "typeof_object JNull = True"
| "typeof_object (JArr xs) = True"
| "typeof_object (JObj ps) = True"
| "typeof_object v = False"

text \<open>
  Reading a named property \<^verbatim>\<open>v.k\<close> of a non-nullish value, for the names the wrappers read
  (\<^verbatim>\<open>count\<close>, \<^verbatim>\<open>error\<close>): an own property of an object, \<^verbatim>\<open>undefined\<close> otherwise.
\<close>

fun get_prop :: "jsval \<Rightarrow> string \<Rightarrow> jsval" where
  "get_prop (JObj ps) k = (case map_of ps k of Some v \<Rightarrow> v | None \<Rightarrow> JUndefined)"
| "get_prop v k = JUndefined"

text \<open>\<^verbatim>\<open>a || b\<close> on values.\<close>

definition js_or :: "jsval \<Rightarrow> jsval \<Rightarrow> jsval" where
  "js_or a b = (if truthy a then a else b)"

text \<open>\<^verbatim>\<open>Array.prototype.join\<close> on an array of strings.\<close>

fun join :: "string \<Rightarrow> string list \<Rightarrow> string" where
  "join sep [] = []"
| "join sep [x] = x"
| "join sep (x # y # ys) = x @ sep @ join sep (y # ys)"

text \<open>\<^verbatim>\<open>String.prototype.substring(0, n)\<close> and \<^verbatim>\<open>String.prototype.startsWith\<close>.\<close>

definition substring0 :: "nat \<Rightarrow> string \<Rightarrow> string" where
  "substring0 n s = take n s"

definition startsWith :: "string \<Rightarrow> string \<Rightarrow> bool" where
  "startsWith s p = (take (length p) s = p)"

text \<open>
  JSON string quoting: the quote and the backslash are escaped, the control characters below
  0x20 are written with their short escape or as \<^verbatim>\<open>\u00XX\<close>.
\<close>

definition hex_digit :: "nat \<Rightarrow> char" where
  "hex_digit n = ''0123456789abcdef'' ! (n mod 16)"

definition json_escape_char :: "char \<Rightarrow> string" where
  "json_escape_char c =
     (if c = CHR 0x22 then [CHR 0x5C, CHR 0x22]
      else if c = CHR 0x5C then [CHR 0x5C, CHR 0x5C]
      else if c = CHR 0x08 then [CHR 0x5C, CHR ''b'']
      else if c = CHR 0x09 then [CHR 0x5C, CHR ''t'']
      else if c = CHR 0x0A then [CHR 0x5C, CHR ''n'']
      else if c = CHR 0x0C then [CHR 0x5C, CHR ''f'']
      else if c = CHR 0x0D then [CHR 0x5C, CHR ''r'']
      else if (of_char c :: nat) < 32
        then [CHR 0x5C, CHR ''u'', CHR ''0'', CHR ''0'',
              hex_digit ((of_char c :: nat) div 16), hex_digit (of_char c :: nat)]
      else [c])"

definition JSON_quote :: "string \<Rightarrow> string" where
  "JSON_quote s = [CHR 0x22] @ concat (map json_escape_char s) @ [CHR 0x22]"

text \<open>
  \<^verbatim>\<open>JSON.stringify(v)\<close>; \<open>None\<close> is the result \<^verbatim>\<open>undefined\<close>. The decimal rendering
  of a number is the runtime's (\<^verbatim>\<open>Number::toString\<close>) and is the parameter \<open>ns\<close>. In an
  array \<^verbatim>\<open>undefined\<close> is written \<^verbatim>\<open>null\<close>; in an object a property whose value is
  \<^verbatim>\<open>undefined\<close> is left out.
\<close>

fun JSON_stringify :: "(rat \<Rightarrow> string) \<Rightarrow> jsval \<Rightarrow> string option" where
  "JSON_stringify ns JUndefined = None"
| "JSON_stringify ns JNull = Some ''null''"
| "JSON_stringify ns (JBool b) = Some (if b then ''true'' else ''false'')"
| "JSON_stringify ns (JNum n) = Some (ns n)"
| "JSON_stringify ns JNaN = Some ''null''"
| "JSON_stringify ns (JStr s) = Some (JSON_quote s)"
| "JSON_stringify ns (JArr xs) =
     Some (''['' @ join '',''
             (map (\<lambda>x. case JSON_stringify ns x of None \<Rightarrow> ''null'' | Some t \<Rightarrow> t) xs)
           @ '']'')"
| "JSON_stringify ns (JObj ps) =
     Some (''{'' @ join '',''
             (concat (map (\<lambda>p. case JSON_stringify ns (snd p) of
                                   None \<Rightarrow> []
                                 | Some t \<Rightarrow> [JSON_quote (fst p) @ '':'' @ t]) ps))
           @ ''}'')"

text \<open>
  \<^verbatim>\<open>String(v)\<close>, also the conversion of a template literal \<^verbatim>\<open>`${v}`\<close>: inside an array
  \<^verbatim>\<open>null\<close> and \<^verbatim>\<open>undefined\<close> are the empty string.
\<close>

fun js_String :: "(rat \<Rightarrow> string) \<Rightarrow> jsval \<Rightarrow> string" where
  "js_String ns JUndefined = ''undefined''"
| "js_String ns JNull = ''null''"
| "js_String ns (JBool b) = (if b then ''true'' else ''false'')"
| "js_String ns (JNum n) = ns n"
| "js_String ns JNaN = ''NaN''"
| "js_String ns (JStr s) = s"
| "js_String ns (JArr xs) =
     join '','' (map (\<lambda>x. if x = JUndefined \<or> x = JNull then [] else js_String ns x) xs)"
| "js_String ns (JObj ps) = ''[object Object]''"

section \<open>Cost estimate\<close>

text \<open>
  \<^verbatim>\<open>calculateLLMCost\<close> of \<^verbatim>\<open>backend/otel.js\<close>. The price table is the object literal
  \<^verbatim>\<open>pricing\<close>, prices per million tokens. A finite number is an exact rational (every finite
  double is one); the rounding of the floating-point operations is not modelled.
\<close>

datatype js_number = Finite rat | NaN

record model_price =
  prompt :: rat
  completion :: rat

text \<open>The own entries of \<^verbatim>\<open>pricing\<close> and of the three provider tables.\<close>

definition pricing :: "string \<Rightarrow> (string \<Rightarrow> model_price option) option" where
  "pricing provider =
     (if provider = ''openai'' then Some (\<lambda>model.
        if model = ''gpt-4'' then Some \<lparr>prompt = 30, completion = 60\<rparr>
        else if model = ''gpt-4-turbo'' then Some \<lparr>prompt = 10, completion = 30\<rparr>
        else if model = ''gpt-3.5-turbo'' then Some \<lparr>prompt = 1/2, completion = 3/2\<rparr>
        else None)
      else if provider = ''anthropic'' then Some (\<lambda>model.
        if model = ''claude-3-opus'' then Some \<lparr>prompt = 15, completion = 75\<rparr>
        else if model = ''claude-3-sonnet'' then Some \<lparr>prompt = 3, completion = 15\<rparr>
        else if model = ''claude-3-haiku'' then Some \<lparr>prompt = 1/4, completion = 5/4\<rparr>
        else None)
      else if provider = ''google'' then Some (\<lambda>model.
        if model = ''gemini-pro'' then Some \<lparr>prompt = 1/2, completion = 3/2\<rparr>
        else None)
      else None)"

text \<open>
  A property read \<^verbatim>\<open>o[k]\<close> on an object literal also finds what the object inherits from
  \<^verbatim>\<open>Object.prototype\<close>. These are the names of its members: the standard methods, the
  legacy accessor helpers and \<^verbatim>\<open>__proto__\<close>. Each member is a function, or for
  \<^verbatim>\<open>__proto__\<close> the prototype object: a truthy value.
\<close>

definition Object_prototype :: "string list" where
  "Object_prototype =
     [''constructor'', ''hasOwnProperty'', ''isPrototypeOf'', ''propertyIsEnumerable'',
      ''toLocaleString'', ''toString'', ''valueOf'', ''__proto__'',
      ''__defineGetter__'', ''__defineSetter__'', ''__lookupGetter__'', ''__lookupSetter__'']"

text \<open>
  When \<^verbatim>\<open>provider\<close> itself names a member of \<^verbatim>\<open>Object.prototype\<close>, the second read
  \<^verbatim>\<open>member[model]\<close> is a read on a built-in of the runtime. What it gives (a falsy value or
  none, a truthy value, or a thrown \<^verbatim>\<open>TypeError\<close> as for \<^verbatim>\<open>caller\<close> on a built-in
  function) is the runtime's, and is the parameter \<open>member_prop\<close> of the functions below.
\<close>

datatype member_read = ReadFalsy | ReadTruthy | ReadThrows js_error

text \<open>
  The value of \<^verbatim>\<open>pricing[provider]?.[model] || { prompt: 1, completion: 2 }\<close>: a price
  entry, or a truthy built-in value found through the prototype chain. A built-in value has no
  property \<^verbatim>\<open>prompt\<close> or \<^verbatim>\<open>completion\<close>.
\<close>

datatype pricing_value = PriceEntry model_price | BuiltinValue

definition modelPricing :: "(string \<Rightarrow> string \<Rightarrow> member_read) \<Rightarrow> string \<Rightarrow> string \<Rightarrow> js_error + pricing_value" where
  "modelPricing member_prop provider model =
     (case pricing provider of
        Some table \<Rightarrow>
          (case table model of
             Some p \<Rightarrow> Inr (PriceEntry p)
           | None \<Rightarrow>
               if model \<in> set Object_prototype then Inr BuiltinValue
               else Inr (PriceEntry \<lparr>prompt = 1, completion = 2\<rparr>))
      | None \<Rightarrow>
          if provider \<in> set Object_prototype then
            (case member_prop provider model of
               ReadThrows e \<Rightarrow> Inl e
             | ReadTruthy \<Rightarrow> Inr BuiltinValue
             | ReadFalsy \<Rightarrow> Inr (PriceEntry \<lparr>prompt = 1, completion = 2\<rparr>))
          else Inr (PriceEntry \<lparr>prompt = 1, completion = 2\<rparr>))"

text \<open>
  With a price entry the cost is the sum of the two products. With a built-in value both
  \<^verbatim>\<open>modelPricing.prompt\<close> and \<^verbatim>\<open>modelPricing.completion\<close> are \<^verbatim>\<open>undefined\<close>, each
  product is \<^verbatim>\<open>NaN\<close> and so is the sum.
\<close>

definition calculateLLMCost :: "(string \<Rightarrow> string \<Rightarrow> member_read) \<Rightarrow> string \<Rightarrow> string \<Rightarrow> rat \<Rightarrow> rat \<Rightarrow> js_error + js_number" where
  "calculateLLMCost member_prop provider model promptTokens completionTokens =
     (case modelPricing member_prop provider model of
        Inl e \<Rightarrow> Inl e
      | Inr (PriceEntry p) \<Rightarrow>
          (let promptCost = (promptTokens / 1000000) * prompt p;
               completionCost = (completionTokens / 1000000) * completion p
           in Inr (Finite (promptCost + completionCost)))
      | Inr BuiltinValue \<Rightarrow> Inr NaN)"

text \<open>A number as a value.\<close>

definition number_value :: "js_number \<Rightarrow> jsval" where
  "number_value n = (case n of Finite r \<Rightarrow> JNum r | NaN \<Rightarrow> JNaN)"

text \<open>
  Whether the lookup stays within own entries: the provider is a key of the table or no
  inherited name, and the model is an entry of the provider's table or no inherited name.
\<close>

definition own_lookup :: "string \<Rightarrow> string \<Rightarrow> bool" where
  "own_lookup provider model =
     (case pricing provider of
        Some table \<Rightarrow> table model \<noteq> None \<or> model \<notin> set Object_prototype
      | None \<Rightarrow> provider \<notin> set Object_prototype)"

text \<open>Whether the price table has an entry for the pair.\<close>

definition in_price_table :: "string \<Rightarrow> string \<Rightarrow> bool" where
  "in_price_table provider model =
     (case pricing provider of None \<Rightarrow> False | Some table \<Rightarrow> table model \<noteq> None)"

section \<open>Spans, tracer and active context\<close>

text \<open>
  Modelled from the spec: the span, the tracer and the context carrier, which
  \<^verbatim>\<open>backend/otel.js\<close> imports from the OpenTelemetry packages and which are not part of the
  sources. Sections 3 and 4.2 of the spec describe the span (identity, parent, attributes,
  status, closed by \<^verbatim>\<open>end()\<close>, immutable once closed), \<^verbatim>\<open>start_span\<close> (parented to
  the active context, root if none, not itself active) and \<^verbatim>\<open>with_active\<close> (the span is
  active while the function runs, the previous one is restored afterwards). An attribute
  value is a string, a number or a boolean; a value of another kind that is handed to the span
  is not stored. \<open>end_calls\<close> counts the invocations of \<^verbatim>\<open>end()\<close>; a span is closed once
  it is not 0.
\<close>

datatype SpanStatusCode = UNSET | OK | ERROR

record span_context =
  ctx_trace_id :: nat
  ctx_span_id :: nat

record span =
  span_id :: nat
  trace_id :: nat
  parent_span_id :: "nat option"
  span_name :: string
  attributes :: "string \<Rightarrow> jsval option"
  status :: SpanStatusCode
  status_message :: "string option"
  exceptions :: "js_error list"
  end_time :: "int option"
  end_calls :: nat

text \<open>The lines the wrappers write to the console, by their content.\<close>

datatype console_event =
    MCPStarting jsval
  | MCPCompleted jsval int
  | MCPFailed jsval js_error
  | LLMStarting string string
  | LLMCompleted string string int rat js_number
  | LLMFailed string string js_error

text \<open>
  The state of one call chain: the store of spans by span id, the id allocator, the active
  span's context, the value of \<^verbatim>\<open>Date.now()\<close> and the console output.
\<close>

record tracer_state =
  spans :: "nat \<Rightarrow> span option"
  next_id :: nat
  active :: "span_context option"
  clock :: int
  console :: "console_event list"

definition spanContext :: "span \<Rightarrow> span_context" where
  "spanContext sp = \<lparr>ctx_trace_id = trace_id sp, ctx_span_id = span_id sp\<rparr>"

fun is_attribute_value :: "jsval \<Rightarrow> bool" where
  "is_attribute_value (JStr s) = True"
| "is_attribute_value (JNum n) = True"
| "is_attribute_value JNaN = True"
| "is_attribute_value (JBool b) = True"
| "is_attribute_value v = False"

definition set_attr :: "string \<Rightarrow> jsval \<Rightarrow> (string \<Rightarrow> jsval option) \<Rightarrow> (string \<Rightarrow> jsval option)" where
  "set_attr k v m = (if is_attribute_value v then m(k \<mapsto> v) else m)"

definition set_attrs :: "(string \<times> jsval) list \<Rightarrow> (string \<Rightarrow> jsval option) \<Rightarrow> (string \<Rightarrow> jsval option)" where
  "set_attrs kvs m = fold (\<lambda>kv m'. set_attr (fst kv) (snd kv) m') kvs m"

definition tracer_startSpan :: "string \<Rightarrow> (string \<times> jsval) list \<Rightarrow> tracer_state \<Rightarrow> span \<times> tracer_state" where
  "tracer_startSpan nm attrs st =
     (let sid = next_id st;
          sp = \<lparr>span_id = sid,
                trace_id = (case active st of None \<Rightarrow> sid | Some c \<Rightarrow> ctx_trace_id c),
                parent_span_id = (case active st of None \<Rightarrow> None | Some c \<Rightarrow> Some (ctx_span_id c)),
                span_name = nm,
                attributes = set_attrs attrs (\<lambda>k. None),
                status = UNSET,
                status_message = None,
                exceptions = [],
                end_time = None,
                end_calls = 0\<rparr>
      in (sp, st\<lparr>spans := (spans st)(sid \<mapsto> sp), next_id := Suc sid\<rparr>))"

text \<open>\<^verbatim>\<open>context.with(trace.setSpan(context.active(), span), fn)\<close>.\<close>

definition context_with :: "span_context \<Rightarrow> (tracer_state \<Rightarrow> 'a \<times> tracer_state) \<Rightarrow> tracer_state \<Rightarrow> 'a \<times> tracer_state" where
  "context_with c fn st =
     (case fn (st\<lparr>active := Some c\<rparr>) of
        (r, st') \<Rightarrow> (r, st'\<lparr>active := active st\<rparr>))"

text \<open>A mutation of the span with id \<open>sid\<close>: ignored once the span is closed.\<close>

definition span_update :: "nat \<Rightarrow> (span \<Rightarrow> span) \<Rightarrow> tracer_state \<Rightarrow> tracer_state" where
  "span_update sid f st =
     (case spans st sid of
        None \<Rightarrow> st
      | Some sp \<Rightarrow> if end_calls sp \<noteq> 0 then st else st\<lparr>spans := (spans st)(sid \<mapsto> f sp)\<rparr>)"

definition span_setAttribute :: "nat \<Rightarrow> string \<Rightarrow> jsval \<Rightarrow> tracer_state \<Rightarrow> tracer_state" where
  "span_setAttribute sid k v = span_update sid (\<lambda>sp. sp\<lparr>attributes := set_attr k v (attributes sp)\<rparr>)"

definition span_setAttributes :: "nat \<Rightarrow> (string \<times> jsval) list \<Rightarrow> tracer_state \<Rightarrow> tracer_state" where
  "span_setAttributes sid kvs = span_update sid (\<lambda>sp. sp\<lparr>attributes := set_attrs kvs (attributes sp)\<rparr>)"

definition span_setStatus :: "nat \<Rightarrow> SpanStatusCode \<Rightarrow> string option \<Rightarrow> tracer_state \<Rightarrow> tracer_state" where
  "span_setStatus sid code msg = span_update sid (\<lambda>sp. sp\<lparr>status := code, status_message := msg\<rparr>)"

definition span_recordException :: "nat \<Rightarrow> js_error \<Rightarrow> tracer_state \<Rightarrow> tracer_state" where
  "span_recordException sid e = span_update sid (\<lambda>sp. sp\<lparr>exceptions := exceptions sp @ [e]\<rparr>)"

definition span_end :: "nat \<Rightarrow> tracer_state \<Rightarrow> tracer_state" where
  "span_end sid st =
     (case spans st sid of
        None \<Rightarrow> st
      | Some sp \<Rightarrow>
          st\<lparr>spans := (spans st)(sid \<mapsto>
               sp\<lparr>end_time := (if end_calls sp = 0 then Some (clock st) else end_time sp),
                  end_calls := Suc (end_calls sp)\<rparr>)\<rparr>)"

definition console_write :: "console_event \<Rightarrow> tracer_state \<Rightarrow> tracer_state" where
  "console_write ev st = st\<lparr>console := console st @ [ev]\<rparr>"

text \<open>Reading a span of the store.\<close>

definition span_status :: "tracer_state \<Rightarrow> nat \<Rightarrow> SpanStatusCode option" where
  "span_status st sid = map_option status (spans st sid)"

definition span_attribute :: "tracer_state \<Rightarrow> nat \<Rightarrow> string \<Rightarrow> jsval option" where
  "span_attribute st sid k = (case spans st sid of None \<Rightarrow> None | Some sp \<Rightarrow> attributes sp k)"

definition span_exceptions :: "tracer_state \<Rightarrow> nat \<Rightarrow> js_error list" where
  "span_exceptions st sid = (case spans st sid of None \<Rightarrow> [] | Some sp \<Rightarrow> exceptions sp)"

definition span_end_calls :: "tracer_state \<Rightarrow> nat \<Rightarrow> nat option" where
  "span_end_calls st sid = map_option end_calls (spans st sid)"

definition span_parent :: "tracer_state \<Rightarrow> nat \<Rightarrow> nat option" where
  "span_parent st sid = (case spans st sid of None \<Rightarrow> None | Some sp \<Rightarrow> parent_span_id sp)"

definition span_trace :: "tracer_state \<Rightarrow> nat \<Rightarrow> nat option" where
  "span_trace st sid = map_option trace_id (spans st sid)"

text \<open>Two states give every span the same parent and the same trace.\<close>

definition same_identity :: "tracer_state \<Rightarrow> tracer_state \<Rightarrow> bool" where
  "same_identity s t = (\<forall>i. span_parent s i = span_parent t i \<and> span_trace s i = span_trace t i)"

section \<open>The tool-call wrapper\<close>

text \<open>
  \<^verbatim>\<open>traceMCPToolCall(toolName, toolInput, executeFn, metadata)\<close> of \<^verbatim>\<open>backend/otel.js\<close>.
  \<open>executeFn\<close> is a state transformer: it runs in the state the wrapper hands to it (with
  the wrapper's span active), may start spans of its own and let time pass, and yields a value
  or throws. The parameter \<open>dbg\<close> is the module constant \<^verbatim>\<open>DEBUG_LOGGING\<close>.
\<close>

record metadata =
  conversationId :: jsval
  userId :: jsval
  mcpServerName :: jsval
  endpoint :: jsval

text \<open>The spread \<^verbatim>\<open>...(v && { [k]: v })\<close>: the attribute is present when \<open>v\<close> is truthy.\<close>

definition spread_if :: "string \<Rightarrow> jsval \<Rightarrow> (string \<times> jsval) list" where
  "spread_if k v = (if truthy v then [(k, v)] else [])"

definition opt_str :: "string option \<Rightarrow> jsval" where
  "opt_str r = (case r of None \<Rightarrow> JUndefined | Some s \<Rightarrow> JStr s)"

definition mcp_start_attributes :: "(rat \<Rightarrow> string) \<Rightarrow> jsval \<Rightarrow> jsval \<Rightarrow> metadata \<Rightarrow> (string \<times> jsval) list" where
  "mcp_start_attributes ns toolName toolInput md =
     [(''mcp.tool.name'', toolName),
      (''mcp.tool.input'', opt_str (JSON_stringify ns toolInput)),
      (''span.kind'', JStr ''internal''),
      (''component'', JStr ''mcp-client'')]
     @ spread_if ''conversation.id'' (conversationId md)
     @ spread_if ''user.id'' (userId md)
     @ spread_if ''mcp.server.name'' (mcpServerName md)"

text \<open>The \<^verbatim>\<open>catch\<close> block followed by the \<^verbatim>\<open>finally\<close> block.\<close>

definition mcp_catch :: "nat \<Rightarrow> jsval \<Rightarrow> int \<Rightarrow> js_error \<Rightarrow> tracer_state \<Rightarrow> jsval outcome \<times> tracer_state" where
  "mcp_catch sid toolName startTime error st =
     (let executionTime = clock st - startTime;
          st1 = span_setAttributes sid
                  [(''mcp.tool.success'', JBool False),
                   (''mcp.tool.execution_time_ms'', JNum (of_int executionTime)),
                   (''mcp.tool.error'', JStr (err_message error)),
                   (''error'', JBool True)] st;
          st2 = span_setStatus sid ERROR (Some (err_message error)) st1;
          st3 = span_recordException sid error st2;
          st4 = console_write (MCPFailed toolName error) st3
      in (Throws error, span_end sid st4))"

text \<open>The \<^verbatim>\<open>TypeError\<close> of \<^verbatim>\<open>JSON.stringify(result).substring\<close> when the result is \<^verbatim>\<open>undefined\<close>.\<close>

definition substring_TypeError :: js_error where
  "substring_TypeError =
     \<lparr>err_name = ''TypeError'',
      err_message = ''Cannot read properties of undefined (reading '' @ [CHR 0x27] @ ''substring''
                      @ [CHR 0x27] @ '')''\<rparr>"

text \<open>The rest of the \<^verbatim>\<open>try\<close> block once \<open>executeFn\<close> has returned \<open>result\<close>.\<close>

definition mcp_result_metadata :: "nat \<Rightarrow> jsval \<Rightarrow> tracer_state \<Rightarrow> tracer_state" where
  "mcp_result_metadata sid result st =
     (if truthy result \<and> typeof_object result then
        (let st1 = (if get_prop result ''count'' \<noteq> JUndefined
                    then span_setAttribute sid ''mcp.tool.results_count'' (get_prop result ''count'') st
                    else st)
         in if truthy (get_prop result ''error'')
            then span_setAttribute sid ''mcp.tool.error'' (get_prop result ''error'') st1
            else st1)
      else st)"

definition mcp_try_rest :: "(rat \<Rightarrow> string) \<Rightarrow> bool \<Rightarrow> nat \<Rightarrow> jsval \<Rightarrow> int \<Rightarrow> jsval \<Rightarrow> tracer_state \<Rightarrow> jsval outcome \<times> tracer_state" where
  "mcp_try_rest ns dbg sid toolName startTime result st =
     (let executionTime = clock st - startTime
      in case JSON_stringify ns result of
           None \<Rightarrow> mcp_catch sid toolName startTime substring_TypeError st
         | Some serialized \<Rightarrow>
             (let st1 = span_setAttributes sid
                          [(''mcp.tool.success'', JBool True),
                           (''mcp.tool.execution_time_ms'', JNum (of_int executionTime)),
                           (''mcp.tool.output'', JStr (substring0 1000 serialized))] st;
                  st2 = mcp_result_metadata sid result st1;
                  st3 = span_setStatus sid OK None st2;
                  st4 = (if dbg then console_write (MCPCompleted toolName executionTime) st3 else st3)
              in (Returns result, span_end sid st4)))"

definition traceMCPToolCall :: "(rat \<Rightarrow> string) \<Rightarrow> bool \<Rightarrow> jsval \<Rightarrow> jsval \<Rightarrow> (tracer_state \<Rightarrow> jsval outcome \<times> tracer_state) \<Rightarrow> metadata \<Rightarrow> tracer_state \<Rightarrow> jsval outcome \<times> tracer_state" where
  "traceMCPToolCall ns dbg toolName toolInput executeFn md st =
     (case tracer_startSpan (''MCP Tool: '' @ js_String ns toolName)
             (mcp_start_attributes ns toolName toolInput md) st of
        (sp, st1) \<Rightarrow>
          (let startTime = clock st1;
               st2 = (if dbg then console_write (MCPStarting toolName) st1 else st1)
           in case context_with (spanContext sp) executeFn st2 of
                (Returns result, st3) \<Rightarrow> mcp_try_rest ns dbg (span_id sp) toolName startTime result st3
              | (Throws error, st3) \<Rightarrow> mcp_catch (span_id sp) toolName startTime error st3))"

text \<open>
  The state in which the wrapper runs \<open>executeFn\<close>: the span is started and is the active
  one.
\<close>

definition mcp_enter :: "(rat \<Rightarrow> string) \<Rightarrow> bool \<Rightarrow> jsval \<Rightarrow> jsval \<Rightarrow> metadata \<Rightarrow> tracer_state \<Rightarrow> tracer_state" where
  "mcp_enter ns dbg toolName toolInput md st =
     (case tracer_startSpan (''MCP Tool: '' @ js_String ns toolName)
             (mcp_start_attributes ns toolName toolInput md) st of
        (sp, st1) \<Rightarrow>
          (if dbg then console_write (MCPStarting toolName) st1 else st1)\<lparr>active := Some (spanContext sp)\<rparr>)"

section \<open>The model-call wrapper\<close>

text \<open>
  \<^verbatim>\<open>traceLLMCall(provider, model, request, executeFn, metadata)\<close> of \<^verbatim>\<open>backend/otel.js\<close>.
  The request and the provider's response are typed as the wrapper reads them: an absent field
  is \<open>None\<close>, token counts are numbers, a choice is known by its \<^verbatim>\<open>finish_reason\<close>.
\<close>

record llm_request =
  messages :: "jsval list option"
  temperature :: jsval
  max_tokens :: jsval
  stream :: jsval

record llm_usage =
  prompt_tokens :: "rat option"
  completion_tokens :: "rat option"
  total_tokens :: "rat option"

record llm_choice =
  finish_reason :: "string option"

record llm_result =
  usage :: "llm_usage option"
  choices :: "llm_choice list option"

text \<open>\<^verbatim>\<open>x || d\<close> for a numeric field \<open>x\<close> that may be absent: \<open>0\<close> is falsy.\<close>

definition num_or :: "rat option \<Rightarrow> rat \<Rightarrow> rat" where
  "num_or x d = (case x of None \<Rightarrow> d | Some v \<Rightarrow> if v \<noteq> 0 then v else d)"

text \<open>\<^verbatim>\<open>result.choices?.[0]?.finish_reason || 'unknown'\<close>.\<close>

definition finish_reason_of :: "llm_result \<Rightarrow> string" where
  "finish_reason_of result =
     (case choices result of
        None \<Rightarrow> ''unknown''
      | Some [] \<Rightarrow> ''unknown''
      | Some (c # cs) \<Rightarrow>
          (case finish_reason c of
             None \<Rightarrow> ''unknown''
           | Some r \<Rightarrow> if r \<noteq> [] then r else ''unknown''))"

definition llm_start_attributes :: "string \<Rightarrow> string \<Rightarrow> llm_request \<Rightarrow> metadata \<Rightarrow> (string \<times> jsval) list" where
  "llm_start_attributes provider model request md =
     [(''llm.provider'', JStr provider),
      (''llm.model'', JStr model),
      (''llm.request.messages_count'',
         JNum (case messages request of None \<Rightarrow> 0 | Some ms \<Rightarrow> of_nat (length ms))),
      (''llm.request.temperature'', temperature request),
      (''llm.request.max_tokens'', max_tokens request),
      (''llm.request.stream'', js_or (stream request) (JBool False)),
      (''span.kind'', JStr ''client''),
      (''component'', JStr ''llm-client'')]
     @ spread_if ''conversation.id'' (conversationId md)
     @ spread_if ''user.id'' (userId md)
     @ spread_if ''llm.endpoint'' (endpoint md)"

definition llm_catch :: "nat \<Rightarrow> string \<Rightarrow> string \<Rightarrow> int \<Rightarrow> js_error \<Rightarrow> tracer_state \<Rightarrow> 'a outcome \<times> tracer_state" where
  "llm_catch sid provider model startTime error st =
     (let executionTime = clock st - startTime;
          st1 = span_setAttributes sid
                  [(''llm.response.latency_ms'', JNum (of_int executionTime)),
                   (''error'', JBool True),
                   (''error.message'', JStr (err_message error)),
                   (''error.type'', JStr (err_name error))] st;
          st2 = span_setStatus sid ERROR (Some (err_message error)) st1;
          st3 = span_recordException sid error st2;
          st4 = console_write (LLMFailed provider model error) st3
      in (Throws error, span_end sid st4))"

text \<open>
  The rest of the \<^verbatim>\<open>try\<close> block once \<open>executeFn\<close> has returned \<open>result\<close>. A
  \<^verbatim>\<open>TypeError\<close> thrown inside \<^verbatim>\<open>calculateLLMCost\<close> is caught like any other.
\<close>

definition llm_try_rest :: "(string \<Rightarrow> string \<Rightarrow> member_read) \<Rightarrow> bool \<Rightarrow> nat \<Rightarrow> string \<Rightarrow> string \<Rightarrow> int \<Rightarrow> llm_result \<Rightarrow> tracer_state \<Rightarrow> llm_result outcome \<times> tracer_state" where
  "llm_try_rest member_prop dbg sid provider model startTime result st =
     (let executionTime = clock st - startTime;
          usage' = (case usage result of
                      None \<Rightarrow> \<lparr>prompt_tokens = None, completion_tokens = None, total_tokens = None\<rparr>
                    | Some u \<Rightarrow> u);
          promptTokens = num_or (prompt_tokens usage') 0;
          completionTokens = num_or (completion_tokens usage') 0;
          totalTokens = num_or (total_tokens usage') (promptTokens + completionTokens)
      in case calculateLLMCost member_prop provider model promptTokens completionTokens of
           Inl error \<Rightarrow> llm_catch sid provider model startTime error st
         | Inr estimatedCost \<Rightarrow>
             (let st1 = span_setAttributes sid
                          [(''llm.response.prompt_tokens'', JNum promptTokens),
                           (''llm.response.completion_tokens'', JNum completionTokens),
                           (''llm.response.total_tokens'', JNum totalTokens),
                           (''llm.response.finish_reason'', JStr (finish_reason_of result)),
                           (''llm.response.latency_ms'', JNum (of_int executionTime)),
                           (''llm.response.estimated_cost'', number_value estimatedCost)] st;
                  st2 = span_setStatus sid OK None st1;
                  st3 = (if dbg
                         then console_write
                                (LLMCompleted provider model executionTime totalTokens estimatedCost) st2
                         else st2)
              in (Returns result, span_end sid st3)))"

definition traceLLMCall :: "(string \<Rightarrow> string \<Rightarrow> member_read) \<Rightarrow> bool \<Rightarrow> string \<Rightarrow> string \<Rightarrow> llm_request \<Rightarrow> (tracer_state \<Rightarrow> llm_result outcome \<times> tracer_state) \<Rightarrow> metadata \<Rightarrow> tracer_state \<Rightarrow> llm_result outcome \<times> tracer_state" where
  "traceLLMCall member_prop dbg provider model request executeFn md st =
     (case tracer_startSpan (''LLM Call: '' @ provider @ ''/'' @ model)
             (llm_start_attributes provider model request md) st of
        (sp, st1) \<Rightarrow>
          (let startTime = clock st1;
               st2 = (if dbg then console_write (LLMStarting provider model) st1 else st1)
           in case context_with (spanContext sp) executeFn st2 of
                (Returns result, st3) \<Rightarrow>
                  llm_try_rest member_prop dbg (span_id sp) provider model startTime result st3
              | (Throws error, st3) \<Rightarrow> llm_catch (span_id sp) provider model startTime error st3))"

definition llm_enter :: "bool \<Rightarrow> string \<Rightarrow> string \<Rightarrow> llm_request \<Rightarrow> metadata \<Rightarrow> tracer_state \<Rightarrow> tracer_state" where
  "llm_enter dbg provider model request md st =
     (case tracer_startSpan (''LLM Call: '' @ provider @ ''/'' @ model)
             (llm_start_attributes provider model request md) st of
        (sp, st1) \<Rightarrow>
          (if dbg then console_write (LLMStarting provider model) st1 else st1)\<lparr>active := Some (spanContext sp)\<rparr>)"

section \<open>The module's exports\<close>

text \<open>
  When \<^verbatim>\<open>ENABLE_OTEL\<close> is not \<^verbatim>\<open>'true'\<close> the module exports the stubs
  \<^verbatim>\<open>traceMCPToolCall: () => {}\<close> and \<^verbatim>\<open>traceLLMCall: () => {}\<close> and returns before
  anything else is set up; otherwise it exports the wrappers above. A stub ignores its
  arguments and returns \<^verbatim>\<open>undefined\<close>.
\<close>

definition exports_traceMCPToolCall :: "bool \<Rightarrow> (rat \<Rightarrow> string) \<Rightarrow> bool \<Rightarrow> jsval \<Rightarrow> jsval \<Rightarrow> (tracer_state \<Rightarrow> jsval outcome \<times> tracer_state) \<Rightarrow> metadata \<Rightarrow> tracer_state \<Rightarrow> jsval outcome \<times> tracer_state" where
  "exports_traceMCPToolCall ENABLE_OTEL ns dbg toolName toolInput executeFn md st =
     (if \<not> ENABLE_OTEL then (Returns JUndefined, st)
      else traceMCPToolCall ns dbg toolName toolInput executeFn md st)"

text \<open>The model-call export; \<open>Returns None\<close> is the stub's \<^verbatim>\<open>undefined\<close>.\<close>

definition exports_traceLLMCall :: "bool \<Rightarrow> (string \<Rightarrow> string \<Rightarrow> member_read) \<Rightarrow> bool \<Rightarrow> string \<Rightarrow> string \<Rightarrow> llm_request \<Rightarrow> (tracer_state \<Rightarrow> llm_result outcome \<times> tracer_state) \<Rightarrow> metadata \<Rightarrow> tracer_state \<Rightarrow> llm_result option outcome \<times> tracer_state" where
  "exports_traceLLMCall ENABLE_OTEL member_prop dbg provider model request executeFn md st =
     (if \<not> ENABLE_OTEL then (Returns None, st)
      else (case traceLLMCall member_prop dbg provider model request executeFn md st of
              (Returns r, st') \<Rightarrow> (Returns (Some r), st')
            | (Throws e, st') \<Rightarrow> (Throws e, st')))"

section \<open>The MCP client proxy\<close>

text \<open>
  \<^verbatim>\<open>instrumentMCPClient(mcpClient, options)\<close> of \<^verbatim>\<open>backend/mcp-tracing.js\<close>: the
  \<^verbatim>\<open>get\<close> trap of the proxy. A property key is a string or a symbol. A property of the
  client is a method or another value (a missing one is \<^verbatim>\<open>undefined\<close>). A call hands its
  outcome over directly (a returned value, a thrown error) or through a promise that settles
  with it; \<^verbatim>\<open>await\<close> gives the outcome in both cases. The option getters are known by the
  value they return, \<open>None\<close> when the option is not given. The module calls the
  \<^verbatim>\<open>traceMCPToolCall\<close> that \<^verbatim>\<open>./otel\<close> exports.
\<close>

datatype prop_key = Name string | Symbol string

datatype 'a call_result = Direct "'a outcome" | ViaPromise "'a outcome"

type_synonym js_method = "jsval list \<Rightarrow> tracer_state \<Rightarrow> jsval call_result \<times> tracer_state"

datatype client_prop = Method js_method | Value jsval

record mcp_options =
  serverName :: "string option"
  getConversationId :: "jsval option"
  getUserId :: "jsval option"

fun settled :: "'a call_result \<Rightarrow> 'a outcome" where
  "settled (Direct out) = out"
| "settled (ViaPromise out) = out"

text \<open>\<^verbatim>\<open>await f()\<close>, and the call of an \<^verbatim>\<open>async\<close> function with body \<open>f\<close>.\<close>

definition awaited :: "(tracer_state \<Rightarrow> 'a call_result \<times> tracer_state) \<Rightarrow> tracer_state \<Rightarrow> 'a outcome \<times> tracer_state" where
  "awaited f st = (case f st of (r, st') \<Rightarrow> (settled r, st'))"

definition async_function :: "(tracer_state \<Rightarrow> 'a outcome \<times> tracer_state) \<Rightarrow> tracer_state \<Rightarrow> 'a call_result \<times> tracer_state" where
  "async_function f st = (case f st of (out, st') \<Rightarrow> (ViaPromise out, st'))"

text \<open>\<^verbatim>\<open>args[i]\<close>: \<^verbatim>\<open>undefined\<close> beyond the end.\<close>

definition arg_at :: "jsval list \<Rightarrow> nat \<Rightarrow> jsval" where
  "arg_at args i = (if i < length args then args ! i else JUndefined)"

definition isToolCall :: "string \<Rightarrow> bool" where
  "isToolCall prop = (prop = ''callTool'' \<or> prop = ''call_tool'' \<or> startsWith prop ''tool_'')"

text \<open>A symbol has no method \<^verbatim>\<open>startsWith\<close>: \<^verbatim>\<open>prop.startsWith('tool_')\<close> throws.\<close>

definition startsWith_TypeError :: js_error where
  "startsWith_TypeError =
     \<lparr>err_name = ''TypeError'', err_message = ''prop.startsWith is not a function''\<rparr>"

definition proxy_toolName :: "string \<Rightarrow> jsval list \<Rightarrow> jsval" where
  "proxy_toolName prop args =
     (if prop = ''callTool'' \<or> prop = ''call_tool'' then arg_at args 0 else JStr prop)"

definition proxy_toolInput :: "string \<Rightarrow> jsval list \<Rightarrow> jsval" where
  "proxy_toolInput prop args =
     (if prop = ''callTool'' \<or> prop = ''call_tool'' then js_or (arg_at args 1) (JObj [])
      else js_or (arg_at args 0) (JObj []))"

definition proxy_metadata :: "mcp_options \<Rightarrow> metadata" where
  "proxy_metadata options =
     \<lparr>conversationId = (case getConversationId options of None \<Rightarrow> JNull | Some v \<Rightarrow> v),
      userId = (case getUserId options of None \<Rightarrow> JNull | Some v \<Rightarrow> v),
      mcpServerName = JStr (case serverName options of None \<Rightarrow> ''MCP Server'' | Some n \<Rightarrow> n),
      endpoint = JUndefined\<rparr>"

text \<open>
  For a function property the trap returns an \<^verbatim>\<open>async function\<close>: whatever the original
  method does, the caller receives a promise.
\<close>

definition instrumentMCPClient :: "bool \<Rightarrow> (rat \<Rightarrow> string) \<Rightarrow> bool \<Rightarrow> (prop_key \<Rightarrow> client_prop) \<Rightarrow> mcp_options \<Rightarrow> prop_key \<Rightarrow> client_prop" where
  "instrumentMCPClient ENABLE_OTEL ns dbg mcpClient options prop =
     (case mcpClient prop of
        Method originalMethod \<Rightarrow>
          Method (\<lambda>args. async_function (\<lambda>st.
            case prop of
              Symbol d \<Rightarrow> (Throws startsWith_TypeError, st)
            | Name n \<Rightarrow>
                if \<not> isToolCall n then awaited (originalMethod args) st
                else exports_traceMCPToolCall ENABLE_OTEL ns dbg
                       (proxy_toolName n args) (proxy_toolInput n args)
                       (awaited (originalMethod args)) (proxy_metadata options) st))
      | Value v \<Rightarrow> Value v)"

text \<open>Calling a property with arguments; calling what is not a function throws.\<close>

definition not_a_function :: js_error where
  "not_a_function = \<lparr>err_name = ''TypeError'', err_message = ''not a function''\<rparr>"

definition invoke :: "client_prop \<Rightarrow> jsval list \<Rightarrow> tracer_state \<Rightarrow> jsval call_result \<times> tracer_state" where
  "invoke p args st =
     (case p of Method f \<Rightarrow> f args st | Value v \<Rightarrow> (Direct (Throws not_a_function), st))"

section \<open>Console interception in the browser\<close>

text \<open>
  \<^verbatim>\<open>instrumentConsole(tracer)\<close> of the frontend \<^verbatim>\<open>otel.js\<close>, as given in
  \<^verbatim>\<open>SELF_HOSTED_DEPLOYMENT.md\<close>. The browser state holds the calls that reached the original
  console methods, the tracer and \<^verbatim>\<open>window.location.href\<close>.
\<close>

record browser_state =
  console_calls :: "(string \<times> jsval list) list"
  tracer :: tracer_state
  location_href :: string

definition originalConsole :: "string \<Rightarrow> jsval list \<Rightarrow> browser_state \<Rightarrow> browser_state" where
  "originalConsole method args bs = bs\<lparr>console_calls := console_calls bs @ [(method, args)]\<rparr>"

text \<open>
  \<^verbatim>\<open>args.map(arg => typeof arg === 'object' ? JSON.stringify(arg) : String(arg)).join(' ')\<close>;
  \<^verbatim>\<open>join\<close> writes an \<^verbatim>\<open>undefined\<close> element as the empty string.
\<close>

definition console_message :: "(rat \<Rightarrow> string) \<Rightarrow> jsval list \<Rightarrow> string" where
  "console_message ns args =
     join '' ''
       (map (\<lambda>arg. if typeof_object arg
                   then (case JSON_stringify ns arg of None \<Rightarrow> [] | Some t \<Rightarrow> t)
                   else js_String ns arg) args)"

text \<open>The function installed as \<^verbatim>\<open>console[method]\<close>.\<close>

definition console_wrapper :: "(rat \<Rightarrow> string) \<Rightarrow> string \<Rightarrow> jsval list \<Rightarrow> browser_state \<Rightarrow> browser_state" where
  "console_wrapper ns method args bs =
     (let bs1 = originalConsole method args bs
      in if method = ''warn'' \<or> method = ''error'' then
           (let message = console_message ns args
            in case tracer_startSpan (''console.'' @ method)
                      [(''log.level'', JStr method),
                       (''log.message'', JStr (substring0 500 message)),
                       (''browser.url'', JStr (location_href bs1))] (tracer bs1) of
                 (sp, ts) \<Rightarrow> bs1\<lparr>tracer := span_end (span_id sp) ts\<rparr>)
         else bs1)"

text \<open>The console after \<^verbatim>\<open>instrumentConsole\<close>: five methods are replaced.\<close>

definition instrumentConsole :: "(rat \<Rightarrow> string) \<Rightarrow> string \<Rightarrow> jsval list \<Rightarrow> browser_state \<Rightarrow> browser_state" where
  "instrumentConsole ns method args bs =
     (if method \<in> set [''log'', ''info'', ''warn'', ''error'', ''debug'']
      then console_wrapper ns method args bs
      else originalConsole method args bs)"

section \<open>Sample inputs\<close>

text \<open>
  Closures, metadata and states for the concrete instances below: a closure that resolves with
  a value, or rejects with an error, after some milliseconds; empty metadata; a fresh tracer
  with no active span. \<open>ns0\<close> renders no digits and is used where no number is serialised.
\<close>

definition resolves :: "'a \<Rightarrow> int \<Rightarrow> tracer_state \<Rightarrow> 'a outcome \<times> tracer_state" where
  "resolves v ms st = (Returns v, st\<lparr>clock := clock st + ms\<rparr>)"

definition rejects :: "js_error \<Rightarrow> int \<Rightarrow> tracer_state \<Rightarrow> 'a outcome \<times> tracer_state" where
  "rejects e ms st = (Throws e, st\<lparr>clock := clock st + ms\<rparr>)"

definition no_metadata :: metadata where
  "no_metadata = \<lparr>conversationId = JUndefined, userId = JUndefined,
                  mcpServerName = JUndefined, endpoint = JUndefined\<rparr>"

definition fresh_tracer :: tracer_state where
  "fresh_tracer = \<lparr>spans = (\<lambda>i. None), next_id = 0, active = None, clock = 0, console = []\<rparr>"

definition ns0 :: "rat \<Rightarrow> string" where
  "ns0 r = []"

text \<open>
  A client with an asynchronous tool method, an asynchronous and a synchronous other method
  and a plain property; proxy options; a reading of built-in members for the instances below,
  in none of which the provider is an inherited name.
\<close>

definition sample_client :: "prop_key \<Rightarrow> client_prop" where
  "sample_client prop =
     (if prop = Name ''callTool''
        then Method (\<lambda>args. async_function (resolves (JObj [(''name'', JStr ''pump'')]) 12))
      else if prop = Name ''listTools''
        then Method (\<lambda>args. async_function (resolves (JArr []) 2))
      else if prop = Name ''getServerVersion''
        then Method (\<lambda>args st. (Direct (Returns (JStr ''1.0'')), st))
      else if prop = Name ''version'' then Value (JStr ''1.0'')
      else Value JUndefined)"

definition sample_options :: mcp_options where
  "sample_options = \<lparr>serverName = Some ''PI System'', getConversationId = None, getUserId = None\<rparr>"

definition no_member_props :: "string \<Rightarrow> string \<Rightarrow> member_read" where
  "no_member_props member k = ReadFalsy"

section \<open>Properties of the cost estimate\<close>

lemma pricing_nonneg:
  "pricing provider = Some table \<Longrightarrow> table model = Some p \<Longrightarrow> 0 \<le> prompt p \<and> 0 \<le> completion p"
  by (auto simp: pricing_def split: if_splits)

lemma modelPricing_own_lookup:
  assumes "own_lookup provider model"
  shows "\<exists>p. modelPricing member_prop provider model = Inr (PriceEntry p)
     \<and> 0 \<le> prompt p \<and> 0 \<le> completion p
     \<and> (\<not> in_price_table provider model \<longrightarrow> p = \<lparr>prompt = 1, completion = 2\<rparr>)"
proof (cases "pricing provider")
  case None
  with assms show ?thesis
    by (simp add: modelPricing_def own_lookup_def in_price_table_def)
next
  case (Some table)
  show ?thesis
  proof (cases "table model")
    case None
    with Some assms show ?thesis
      by (simp add: modelPricing_def own_lookup_def in_price_table_def)
  next
    case (Some p)
    with \<open>pricing provider = Some table\<close> pricing_nonneg [of provider table model p] show ?thesis
      by (simp add: modelPricing_def in_price_table_def)
  qed
qed

text \<open>
  Where the lookup stays within own entries the cost is a finite number, does not decrease
  when either token count grows, is not negative for non-negative counts, and is computed with
  the prices 1 and 2 when the pair has no entry.
\<close>

lemma calculateLLMCost_own_lookup:
  assumes own: "own_lookup provider model"
    and le: "0 \<le> p" "p \<le> p'" "0 \<le> c" "c \<le> c'"
  shows "\<exists>x y. calculateLLMCost member_prop provider model p c = Inr (Finite x)
     \<and> calculateLLMCost member_prop provider model p' c' = Inr (Finite y)
     \<and> x \<le> y \<and> 0 \<le> x
     \<and> (\<not> in_price_table provider model \<longrightarrow> x = (p / 1000000) * 1 + (c / 1000000) * 2)"
proof -
  obtain pr where pr: "modelPricing member_prop provider model = Inr (PriceEntry pr)"
    and nn: "0 \<le> prompt pr" "0 \<le> completion pr"
    and df: "\<not> in_price_table provider model \<Longrightarrow> pr = \<lparr>prompt = 1, completion = 2\<rparr>"
    using modelPricing_own_lookup [OF own, of member_prop] by blast
  have m1: "p / 1000000 * prompt pr \<le> p' / 1000000 * prompt pr"
    using le(2) nn(1) by (intro mult_right_mono) (simp_all add: divide_right_mono)
  have m2: "c / 1000000 * completion pr \<le> c' / 1000000 * completion pr"
    using le(4) nn(2) by (intro mult_right_mono) (simp_all add: divide_right_mono)
  have n1: "0 \<le> p / 1000000 * prompt pr"
    using le(1) nn(1) by simp
  have n2: "0 \<le> c / 1000000 * completion pr"
    using le(3) nn(2) by simp
  show ?thesis
    using pr m1 m2 n1 n2 df by (auto simp: calculateLLMCost_def Let_def)
qed

text \<open>
  Claim C6 against the code. The model name \<^verbatim>\<open>constructor\<close> is not in the price table of
  \<^verbatim>\<open>openai\<close>, yet \<^verbatim>\<open>pricing['openai']['constructor']\<close> finds the inherited function
  \<^verbatim>\<open>Object\<close>, which is truthy, so the default prices are not taken and the cost is
  \<^verbatim>\<open>NaN\<close> for every token count: not the default-priced cost, and not ordered with any
  number.
\<close>

theorem inherited_model_name_costs_NaN:
  "\<not> in_price_table ''openai'' ''constructor''
   \<and> calculateLLMCost member_prop ''openai'' ''constructor'' 150 75 = Inr NaN
   \<and> calculateLLMCost member_prop ''openai'' ''constructor'' 200 80 = Inr NaN
   \<and> calculateLLMCost member_prop ''openai'' ''no-such-model'' 150 75 = Inr (Finite (3 / 10000))"
  by (simp add: calculateLLMCost_def modelPricing_def pricing_def in_price_table_def
      Object_prototype_def)

section \<open>The wrappers on an open span\<close>

text \<open>
  What the blocks of the tool-call wrapper do to a span that is in the store and not closed.
\<close>

lemma span_update_open:
  "spans st sid = Some sp \<Longrightarrow> end_calls sp = 0 \<Longrightarrow>
   span_update sid f st = st\<lparr>spans := (spans st)(sid \<mapsto> f sp)\<rparr>"
  by (simp add: span_update_def)

lemma span_end_some:
  "spans st sid = Some sp \<Longrightarrow>
   span_end sid st = st\<lparr>spans := (spans st)(sid \<mapsto>
      sp\<lparr>end_time := (if end_calls sp = 0 then Some (clock st) else end_time sp),
         end_calls := Suc (end_calls sp)\<rparr>)\<rparr>"
  by (simp add: span_end_def)

lemma mcp_catch_open:
  assumes "spans st sid = Some sp" "end_calls sp = 0"
  shows "mcp_catch sid toolName startTime e st =
    (Throws e,
     st\<lparr>spans := (spans st)(sid \<mapsto>
          sp\<lparr>attributes := set_attrs
                  [(''mcp.tool.success'', JBool False),
                   (''mcp.tool.execution_time_ms'', JNum (of_int (clock st - startTime))),
                   (''mcp.tool.error'', JStr (err_message e)),
                   (''error'', JBool True)] (attributes sp),
             status := ERROR,
             status_message := Some (err_message e),
             exceptions := exceptions sp @ [e],
             end_time := Some (clock st),
             end_calls := Suc 0\<rparr>),
         console := console st @ [MCPFailed toolName e]\<rparr>)"
  using assms
  by (simp add: mcp_catch_def Let_def span_setAttributes_def span_setStatus_def
      span_recordException_def span_update_open console_write_def span_end_some)

lemma mcp_enter_simps:
  "next_id (mcp_enter ns dbg toolName toolInput md st) = Suc (next_id st)"
  "clock (mcp_enter ns dbg toolName toolInput md st) = clock st"
  "active (mcp_enter ns dbg toolName toolInput md st) =
     Some \<lparr>ctx_trace_id = (case active st of None \<Rightarrow> next_id st | Some c \<Rightarrow> ctx_trace_id c),
           ctx_span_id = next_id st\<rparr>"
  "spans (mcp_enter ns dbg toolName toolInput md st) (next_id st) =
     Some \<lparr>span_id = next_id st,
           trace_id = (case active st of None \<Rightarrow> next_id st | Some c \<Rightarrow> ctx_trace_id c),
           parent_span_id = (case active st of None \<Rightarrow> None | Some c \<Rightarrow> Some (ctx_span_id c)),
           span_name = ''MCP Tool: '' @ js_String ns toolName,
           attributes = set_attrs (mcp_start_attributes ns toolName toolInput md) (\<lambda>k. None),
           status = UNSET, status_message = None, exceptions = [],
           end_time = None, end_calls = 0\<rparr>"
  by (simp_all add: mcp_enter_def tracer_startSpan_def Let_def console_write_def spanContext_def)

lemma traceMCPToolCall_runs_executeFn:
  "traceMCPToolCall ns dbg toolName toolInput executeFn md st =
     (case executeFn (mcp_enter ns dbg toolName toolInput md st) of
        (Returns result, st3) \<Rightarrow>
           mcp_try_rest ns dbg (next_id st) toolName (clock st) result (st3\<lparr>active := active st\<rparr>)
      | (Throws error, st3) \<Rightarrow>
           mcp_catch (next_id st) toolName (clock st) error (st3\<lparr>active := active st\<rparr>))"
  by (simp add: traceMCPToolCall_def mcp_enter_def tracer_startSpan_def Let_def
      context_with_def console_write_def spanContext_def split: prod.splits outcome.splits)


lemma mcp_result_metadata_open:
  assumes "spans st sid = Some sp" "end_calls sp = 0"
  shows "\<exists>sp'. mcp_result_metadata sid result st = st\<lparr>spans := (spans st)(sid \<mapsto> sp')\<rparr>
     \<and> status sp' = status sp \<and> end_calls sp' = 0 \<and> exceptions sp' = exceptions sp
     \<and> span_id sp' = span_id sp \<and> trace_id sp' = trace_id sp
     \<and> parent_span_id sp' = parent_span_id sp \<and> span_name sp' = span_name sp
     \<and> (\<forall>k. k \<noteq> ''mcp.tool.results_count'' \<longrightarrow> k \<noteq> ''mcp.tool.error'' \<longrightarrow>
            attributes sp' k = attributes sp k)"
proof -
  define a1 where "a1 = (if get_prop result ''count'' \<noteq> JUndefined
      then set_attr ''mcp.tool.results_count'' (get_prop result ''count'') (attributes sp)
      else attributes sp)"
  define a2 where "a2 = (if truthy (get_prop result ''error'')
      then set_attr ''mcp.tool.error'' (get_prop result ''error'') a1 else a1)"
  define a where "a = (if truthy result \<and> typeof_object result then a2 else attributes sp)"
  have same: "st\<lparr>spans := (spans st)(sid \<mapsto> sp)\<rparr> = st"
    using assms(1) by (simp add: fun_upd_idem)
  have eq: "mcp_result_metadata sid result st = st\<lparr>spans := (spans st)(sid \<mapsto> sp\<lparr>attributes := a\<rparr>)\<rparr>"
    using assms same
    by (simp add: mcp_result_metadata_def Let_def span_setAttribute_def span_update_open
        a_def a2_def a1_def)
  have other: "\<forall>k. k \<noteq> ''mcp.tool.results_count'' \<longrightarrow> k \<noteq> ''mcp.tool.error'' \<longrightarrow>
            a k = attributes sp k"
    by (simp add: a_def a2_def a1_def set_attr_def)
  show ?thesis
    using eq other assms(2) by (intro exI[of _ "sp\<lparr>attributes := a\<rparr>"]) simp
qed

lemma set_attrs_other:
  "k \<notin> fst ` set kvs \<Longrightarrow> set_attrs kvs m k = m k"
  unfolding set_attrs_def by (induction kvs arbitrary: m) (auto simp: set_attr_def)

lemma mcp_try_rest_open:
  assumes sp: "spans st sid = Some sp" and op: "end_calls sp = 0"
    and js: "JSON_stringify ns result = Some ser"
  shows "\<exists>spf st'. mcp_try_rest ns dbg sid toolName startTime result st = (Returns result, st')
     \<and> spans st' sid = Some spf
     \<and> status spf = OK \<and> end_calls spf = 1 \<and> exceptions spf = exceptions sp
     \<and> span_id spf = span_id sp \<and> trace_id spf = trace_id sp
     \<and> parent_span_id spf = parent_span_id sp \<and> span_name spf = span_name sp
     \<and> attributes spf ''mcp.tool.success'' = Some (JBool True)
     \<and> attributes spf ''mcp.tool.execution_time_ms'' = Some (JNum (of_int (clock st - startTime)))
     \<and> attributes spf ''mcp.tool.output'' = Some (JStr (take 1000 ser))
     \<and> attributes spf ''mcp.tool.input'' = attributes sp ''mcp.tool.input''
     \<and> (\<forall>i. i \<noteq> sid \<longrightarrow> spans st' i = spans st i)
     \<and> next_id st' = next_id st \<and> active st' = active st \<and> clock st' = clock st"
proof -
  define kvs where "kvs = [(''mcp.tool.success'', JBool True),
       (''mcp.tool.execution_time_ms'', JNum (of_int (clock st - startTime))),
       (''mcp.tool.output'', JStr (substring0 1000 ser))]"
  define sp1 where "sp1 = sp\<lparr>attributes := set_attrs kvs (attributes sp)\<rparr>"
  define st1 where "st1 = st\<lparr>spans := (spans st)(sid \<mapsto> sp1)\<rparr>"
  have s1: "span_setAttributes sid kvs st = st1"
    using sp op by (simp add: span_setAttributes_def span_update_open st1_def sp1_def)
  have sp1: "spans st1 sid = Some sp1" "end_calls sp1 = 0"
    using op by (simp_all add: st1_def sp1_def)
  obtain sp2 where m: "mcp_result_metadata sid result st1 = st1\<lparr>spans := (spans st1)(sid \<mapsto> sp2)\<rparr>"
    and k2: "status sp2 = status sp1" "end_calls sp2 = 0" "exceptions sp2 = exceptions sp1"
      "span_id sp2 = span_id sp1" "trace_id sp2 = trace_id sp1"
      "parent_span_id sp2 = parent_span_id sp1" "span_name sp2 = span_name sp1"
    and a2: "\<And>k. k \<noteq> ''mcp.tool.results_count'' \<Longrightarrow> k \<noteq> ''mcp.tool.error'' \<Longrightarrow>
            attributes sp2 k = attributes sp1 k"
    using mcp_result_metadata_open [OF sp1, of result] by blast
  define st2 where "st2 = st1\<lparr>spans := (spans st1)(sid \<mapsto> sp2)\<rparr>"
  define spf where "spf = sp2\<lparr>status := OK, status_message := None,
        end_time := Some (clock st), end_calls := Suc 0\<rparr>"
  define st' where "st' = (if dbg then console_write (MCPCompleted toolName (clock st - startTime))
        (st2\<lparr>spans := (spans st2)(sid \<mapsto> sp2\<lparr>status := OK, status_message := None\<rparr>)\<rparr>)
      else st2\<lparr>spans := (spans st2)(sid \<mapsto> sp2\<lparr>status := OK, status_message := None\<rparr>)\<rparr>)
      \<lparr>spans := (spans st2)(sid \<mapsto> spf)\<rparr>"
  have m': "mcp_result_metadata sid result st1 = st2"
    using m by (simp add: st2_def)
  have sp2: "spans st2 sid = Some sp2"
    by (simp add: st2_def)
  have s3: "span_setStatus sid OK None st2 =
      st2\<lparr>spans := (spans st2)(sid \<mapsto> sp2\<lparr>status := OK, status_message := None\<rparr>)\<rparr>"
    using sp2 k2(2) by (simp add: span_setStatus_def span_update_open)
  have c2: "clock st2 = clock st"
    by (simp add: st2_def st1_def)
  have run: "mcp_try_rest ns dbg sid toolName startTime result st = (Returns result, st')"
    apply (simp only: mcp_try_rest_def Let_def js option.case)
    apply (simp only: kvs_def[symmetric] s1 m' s3)
    using k2(2) c2
    by (simp add: span_end_some console_write_def st'_def spf_def)
  have f: "spans st' sid = Some spf"
    by (simp add: st'_def console_write_def)
  have others: "\<forall>i. i \<noteq> sid \<longrightarrow> spans st' i = spans st i"
    by (simp add: st'_def console_write_def st2_def st1_def)
  have misc: "next_id st' = next_id st \<and> active st' = active st \<and> clock st' = clock st"
    by (simp add: st'_def console_write_def st2_def st1_def)
  have a1: "attributes sp1 ''mcp.tool.success'' = Some (JBool True)"
    "attributes sp1 ''mcp.tool.execution_time_ms'' = Some (JNum (of_int (clock st - startTime)))"
    "attributes sp1 ''mcp.tool.output'' = Some (JStr (take 1000 ser))"
    "attributes sp1 ''mcp.tool.input'' = attributes sp ''mcp.tool.input''"
    by (simp_all add: sp1_def kvs_def set_attrs_def set_attr_def substring0_def)
  have af: "attributes spf = attributes sp2"
    by (simp add: spf_def)
  show ?thesis
    apply (intro exI[of _ spf] exI[of _ st'])
    using run f others misc k2 a1 a2[of "''mcp.tool.success''"]
      a2[of "''mcp.tool.execution_time_ms''"] a2[of "''mcp.tool.output''"]
      a2[of "''mcp.tool.input''"]
    by (simp add: af) (simp add: spf_def sp1_def)
qed

text \<open>The same for the model-call wrapper.\<close>

lemma llm_enter_simps:
  "next_id (llm_enter dbg provider model request md st) = Suc (next_id st)"
  "clock (llm_enter dbg provider model request md st) = clock st"
  "active (llm_enter dbg provider model request md st) =
     Some \<lparr>ctx_trace_id = (case active st of None \<Rightarrow> next_id st | Some c \<Rightarrow> ctx_trace_id c),
           ctx_span_id = next_id st\<rparr>"
  "spans (llm_enter dbg provider model request md st) (next_id st) =
     Some \<lparr>span_id = next_id st,
           trace_id = (case active st of None \<Rightarrow> next_id st | Some c \<Rightarrow> ctx_trace_id c),
           parent_span_id = (case active st of None \<Rightarrow> None | Some c \<Rightarrow> Some (ctx_span_id c)),
           span_name = ''LLM Call: '' @ provider @ ''/'' @ model,
           attributes = set_attrs (llm_start_attributes provider model request md) (\<lambda>k. None),
           status = UNSET, status_message = None, exceptions = [],
           end_time = None, end_calls = 0\<rparr>"
  by (simp_all add: llm_enter_def tracer_startSpan_def Let_def console_write_def spanContext_def)

lemma traceLLMCall_runs_executeFn:
  "traceLLMCall member_prop dbg provider model request executeFn md st =
     (case executeFn (llm_enter dbg provider model request md st) of
        (Returns result, st3) \<Rightarrow>
           llm_try_rest member_prop dbg (next_id st) provider model (clock st) result
             (st3\<lparr>active := active st\<rparr>)
      | (Throws error, st3) \<Rightarrow>
           llm_catch (next_id st) provider model (clock st) error (st3\<lparr>active := active st\<rparr>))"
  by (simp add: traceLLMCall_def llm_enter_def tracer_startSpan_def Let_def
      context_with_def console_write_def spanContext_def split: prod.splits outcome.splits)

lemma llm_catch_open:
  assumes "spans st sid = Some sp" "end_calls sp = 0"
  shows "llm_catch sid provider model startTime e st =
    (Throws e,
     st\<lparr>spans := (spans st)(sid \<mapsto>
          sp\<lparr>attributes := set_attrs
                  [(''llm.response.latency_ms'', JNum (of_int (clock st - startTime))),
                   (''error'', JBool True),
                   (''error.message'', JStr (err_message e)),
                   (''error.type'', JStr (err_name e))] (attributes sp),
             status := ERROR,
             status_message := Some (err_message e),
             exceptions := exceptions sp @ [e],
             end_time := Some (clock st),
             end_calls := Suc 0\<rparr>),
         console := console st @ [LLMFailed provider model e]\<rparr>)"
  using assms
  by (simp add: llm_catch_def Let_def span_setAttributes_def span_setStatus_def
      span_recordException_def span_update_open console_write_def span_end_some)

lemma number_value_attribute [simp]: "is_attribute_value (number_value n)"
  by (cases n) (simp_all add: number_value_def)

lemma llm_try_rest_open:
  assumes sp: "spans st sid = Some sp" and op: "end_calls sp = 0"
    and cost: "calculateLLMCost member_prop provider model
              (num_or (case usage result of None \<Rightarrow> None | Some u \<Rightarrow> prompt_tokens u) 0)
              (num_or (case usage result of None \<Rightarrow> None | Some u \<Rightarrow> completion_tokens u) 0)
            = Inr estimatedCost"
  shows "\<exists>spf st'. llm_try_rest member_prop dbg sid provider model startTime result st
           = (Returns result, st')
     \<and> spans st' sid = Some spf
     \<and> status spf = OK \<and> end_calls spf = 1 \<and> exceptions spf = exceptions sp
     \<and> span_id spf = span_id sp \<and> trace_id spf = trace_id sp
     \<and> parent_span_id spf = parent_span_id sp \<and> span_name spf = span_name sp
     \<and> attributes spf ''llm.response.prompt_tokens'' =
           Some (JNum (num_or (case usage result of None \<Rightarrow> None | Some u \<Rightarrow> prompt_tokens u) 0))
     \<and> attributes spf ''llm.response.completion_tokens'' =
           Some (JNum (num_or (case usage result of None \<Rightarrow> None | Some u \<Rightarrow> completion_tokens u) 0))
     \<and> attributes spf ''llm.response.total_tokens'' =
           Some (JNum (num_or (case usage result of None \<Rightarrow> None | Some u \<Rightarrow> total_tokens u)
              (num_or (case usage result of None \<Rightarrow> None | Some u \<Rightarrow> prompt_tokens u) 0
               + num_or (case usage result of None \<Rightarrow> None | Some u \<Rightarrow> completion_tokens u) 0)))
     \<and> attributes spf ''llm.response.estimated_cost'' = Some (number_value estimatedCost)
     \<and> (\<forall>i. i \<noteq> sid \<longrightarrow> spans st' i = spans st i)
     \<and> next_id st' = next_id st \<and> active st' = active st \<and> clock st' = clock st"
  using assms
  by (cases "usage result")
     (simp_all add: llm_try_rest_def Let_def span_setAttributes_def span_setStatus_def
      span_update_open console_write_def span_end_some set_attrs_def set_attr_def)

section \<open>Exception transparency\<close>

lemma open_span:
  "span_end_calls st sid = Some 0 \<Longrightarrow> \<exists>sp. spans st sid = Some sp \<and> end_calls sp = 0"
  by (auto simp: span_end_calls_def)

text \<open>
  Claim C3. When \<open>executeFn\<close>, run by the wrapper, throws the error \<open>E\<close> (and has not
  itself closed the wrapper's span), \<^verbatim>\<open>traceMCPToolCall\<close> and \<^verbatim>\<open>traceLLMCall\<close> throw
  \<open>E\<close> again, the span has status ERROR, \<open>E\<close> is the exception recorded last on it, and
  \<^verbatim>\<open>end()\<close> has been called on it exactly once.
\<close>

theorem wrappers_rethrow:
  assumes m1: "executeFn (mcp_enter ns dbg toolName toolInput md st) = (Throws E, st')"
    and m2: "span_end_calls st' (next_id st) = Some 0"
    and l1: "llmFn (llm_enter dbg' provider model request md' lst) = (Throws E', lst')"
    and l2: "span_end_calls lst' (next_id lst) = Some 0"
  shows "fst (traceMCPToolCall ns dbg toolName toolInput executeFn md st) = Throws E
     \<and> span_status (snd (traceMCPToolCall ns dbg toolName toolInput executeFn md st)) (next_id st)
         = Some ERROR
     \<and> span_exceptions (snd (traceMCPToolCall ns dbg toolName toolInput executeFn md st)) (next_id st)
         = span_exceptions st' (next_id st) @ [E]
     \<and> span_end_calls (snd (traceMCPToolCall ns dbg toolName toolInput executeFn md st)) (next_id st)
         = Some 1
     \<and> fst (traceLLMCall member_prop dbg' provider model request llmFn md' lst) = Throws E'
     \<and> span_status (snd (traceLLMCall member_prop dbg' provider model request llmFn md' lst)) (next_id lst)
         = Some ERROR
     \<and> span_exceptions (snd (traceLLMCall member_prop dbg' provider model request llmFn md' lst)) (next_id lst)
         = span_exceptions lst' (next_id lst) @ [E']
     \<and> span_end_calls (snd (traceLLMCall member_prop dbg' provider model request llmFn md' lst)) (next_id lst)
         = Some 1"
proof -
  obtain sp where sp: "spans st' (next_id st) = Some sp" "end_calls sp = 0"
    using open_span [OF m2] by blast
  then have sp': "spans (st'\<lparr>active := active st\<rparr>) (next_id st) = Some sp"
    by simp
  have mcp: "traceMCPToolCall ns dbg toolName toolInput executeFn md st =
      mcp_catch (next_id st) toolName (clock st) E (st'\<lparr>active := active st\<rparr>)"
    by (simp add: traceMCPToolCall_runs_executeFn m1)
  obtain lp where lp: "spans lst' (next_id lst) = Some lp" "end_calls lp = 0"
    using open_span [OF l2] by blast
  then have lp': "spans (lst'\<lparr>active := active lst\<rparr>) (next_id lst) = Some lp"
    by simp
  have llm: "traceLLMCall member_prop dbg' provider model request llmFn md' lst =
      llm_catch (next_id lst) provider model (clock lst) E' (lst'\<lparr>active := active lst\<rparr>)"
    by (simp add: traceLLMCall_runs_executeFn l1)
  show ?thesis
    unfolding mcp llm mcp_catch_open [OF sp' sp(2)] llm_catch_open [OF lp' lp(2)]
    using sp lp
    by (simp add: span_status_def span_exceptions_def span_end_calls_def)
qed


theorem wrappers_rethrow_witness:
  "fst (traceMCPToolCall ns0 False (JStr ''search'') (JObj [])
          (rejects \<lparr>err_name = ''Error'', err_message = ''timeout''\<rparr> 7) no_metadata fresh_tracer)
     = Throws \<lparr>err_name = ''Error'', err_message = ''timeout''\<rparr>
   \<and> span_status (snd (traceMCPToolCall ns0 False (JStr ''search'') (JObj [])
          (rejects \<lparr>err_name = ''Error'', err_message = ''timeout''\<rparr> 7) no_metadata fresh_tracer)) 0
     = Some ERROR
   \<and> span_end_calls (snd (traceMCPToolCall ns0 False (JStr ''search'') (JObj [])
          (rejects \<lparr>err_name = ''Error'', err_message = ''timeout''\<rparr> 7) no_metadata fresh_tracer)) 0
     = Some 1
   \<and> fst (traceLLMCall no_member_props False ''openai'' ''gpt-4''
          \<lparr>messages = None, temperature = JUndefined, max_tokens = JUndefined, stream = JUndefined\<rparr>
          (rejects \<lparr>err_name = ''Error'', err_message = ''rate limit''\<rparr> 9) no_metadata fresh_tracer)
     = Throws \<lparr>err_name = ''Error'', err_message = ''rate limit''\<rparr>
   \<and> span_status (snd (traceLLMCall no_member_props False ''openai'' ''gpt-4''
          \<lparr>messages = None, temperature = JUndefined, max_tokens = JUndefined, stream = JUndefined\<rparr>
          (rejects \<lparr>err_name = ''Error'', err_message = ''rate limit''\<rparr> 9) no_metadata fresh_tracer)) 0
     = Some ERROR"
proof -
  let ?E = "\<lparr>err_name = ''Error'', err_message = ''timeout''\<rparr>"
  let ?E' = "\<lparr>err_name = ''Error'', err_message = ''rate limit''\<rparr>"
  let ?rq = "\<lparr>messages = None, temperature = JUndefined, max_tokens = JUndefined, stream = JUndefined\<rparr>"
  let ?s = "mcp_enter ns0 False (JStr ''search'') (JObj []) no_metadata fresh_tracer"
  let ?l = "llm_enter False ''openai'' ''gpt-4'' ?rq no_metadata fresh_tracer"
  have m1: "rejects ?E 7 ?s = (Throws ?E, ?s\<lparr>clock := clock ?s + 7\<rparr>)"
    by (simp add: rejects_def)
  have m2: "span_end_calls (?s\<lparr>clock := clock ?s + 7\<rparr>) (next_id fresh_tracer) = Some 0"
    by (simp add: span_end_calls_def mcp_enter_simps)
  have l1: "rejects ?E' 9 ?l = (Throws ?E', ?l\<lparr>clock := clock ?l + 9\<rparr>)"
    by (simp add: rejects_def)
  have l2: "span_end_calls (?l\<lparr>clock := clock ?l + 9\<rparr>) (next_id fresh_tracer) = Some 0"
    by (simp add: span_end_calls_def llm_enter_simps)
  have n: "next_id fresh_tracer = 0"
    by (simp add: fresh_tracer_def)
  show ?thesis
    using wrappers_rethrow [where executeFn = "rejects ?E 7" and ns = ns0 and dbg = False
        and toolName = "JStr ''search''" and toolInput = "JObj []" and md = no_metadata
        and st = fresh_tracer and llmFn = "rejects ?E' 9" and dbg' = False and member_prop = no_member_props
        and provider = "''openai''" and model = "''gpt-4''" and request = ?rq
        and md' = no_metadata and lst = fresh_tracer, OF m1 m2 l1 l2]
    by (simp add: n)
qed

section \<open>A result that reports an error\<close>

text \<open>The definitions to unfold when a wrapper is evaluated at a concrete input.\<close>

lemmas wrapper_eval =
  traceMCPToolCall_def tracer_startSpan_def Let_def fresh_tracer_def
  context_with_def resolves_def rejects_def spanContext_def mcp_try_rest_def mcp_catch_def
  span_setAttributes_def span_update_def set_attrs_def set_attr_def mcp_start_attributes_def
  mcp_result_metadata_def span_setAttribute_def span_setStatus_def span_end_def
  span_recordException_def console_write_def
  no_metadata_def spread_if_def opt_str_def substring0_def
  span_status_def span_attribute_def span_end_calls_def span_exceptions_def

lemma get_prop_defined_object:
  "get_prop result k \<noteq> JUndefined \<Longrightarrow> truthy result \<and> typeof_object result
     \<and> JSON_stringify ns result \<noteq> None"
  by (cases result) auto

text \<open>
  Claim C1, as the code has it. When \<open>executeFn\<close> returns a result with a non-null
  \<^verbatim>\<open>error\<close> property (and has not itself closed the wrapper's span), the tool-call wrapper
  returns that result and leaves the span with status OK, not ERROR, while it records
  \<^verbatim>\<open>mcp.tool.success = true\<close> and the serialized result cut to 1000 characters and calls
  \<^verbatim>\<open>end()\<close> once.
\<close>

theorem error_field_keeps_status_OK:
  assumes ex: "executeFn (mcp_enter ns dbg toolName toolInput md st) = (Returns result, st')"
    and op: "span_end_calls st' (next_id st) = Some 0"
    and e1: "get_prop result ''error'' \<noteq> JUndefined"
    and e2: "get_prop result ''error'' \<noteq> JNull"
  shows "fst (traceMCPToolCall ns dbg toolName toolInput executeFn md st) = Returns result
     \<and> span_status (snd (traceMCPToolCall ns dbg toolName toolInput executeFn md st)) (next_id st)
         = Some OK
     \<and> span_attribute (snd (traceMCPToolCall ns dbg toolName toolInput executeFn md st)) (next_id st)
           ''mcp.tool.success'' = Some (JBool True)
     \<and> span_attribute (snd (traceMCPToolCall ns dbg toolName toolInput executeFn md st)) (next_id st)
           ''mcp.tool.output'' = map_option (\<lambda>ser. JStr (substring0 1000 ser)) (JSON_stringify ns result)
     \<and> span_end_calls (snd (traceMCPToolCall ns dbg toolName toolInput executeFn md st)) (next_id st)
         = Some 1"
proof -
  obtain sp where sp: "spans st' (next_id st) = Some sp" "end_calls sp = 0"
    using op by (auto simp: span_end_calls_def)
  then have sp': "spans (st'\<lparr>active := active st\<rparr>) (next_id st) = Some sp"
    by simp
  have obj: "truthy result" "typeof_object result"
    using get_prop_defined_object [OF e1] by auto
  obtain ser where js: "JSON_stringify ns result = Some ser"
    using get_prop_defined_object [OF e1, of ns] by auto
  have run: "traceMCPToolCall ns dbg toolName toolInput executeFn md st =
      mcp_try_rest ns dbg (next_id st) toolName (clock st) result (st'\<lparr>active := active st\<rparr>)"
    by (simp add: traceMCPToolCall_runs_executeFn ex)
  obtain spf stf where
    r: "mcp_try_rest ns dbg (next_id st) toolName (clock st) result (st'\<lparr>active := active st\<rparr>)
          = (Returns result, stf)"
    and f: "spans stf (next_id st) = Some spf" "status spf = OK" "end_calls spf = 1"
      "attributes spf ''mcp.tool.success'' = Some (JBool True)"
      "attributes spf ''mcp.tool.output'' = Some (JStr (take 1000 ser))"
    using mcp_try_rest_open [OF sp' sp(2) js, of dbg toolName "clock st"] by blast
  show ?thesis
    unfolding run r using f obj sp js
    by (simp add: span_status_def span_attribute_def span_end_calls_def substring0_def)
qed

theorem error_field_keeps_status_OK_witness:
  "fst (traceMCPToolCall ns0 False (JStr ''search'') (JObj [])
          (resolves (JObj [(''error'', JStr ''not found'')]) 7) no_metadata fresh_tracer)
     = Returns (JObj [(''error'', JStr ''not found'')])
   \<and> span_status (snd (traceMCPToolCall ns0 False (JStr ''search'') (JObj [])
          (resolves (JObj [(''error'', JStr ''not found'')]) 7) no_metadata fresh_tracer)) 0
     = Some OK
   \<and> span_attribute (snd (traceMCPToolCall ns0 False (JStr ''search'') (JObj [])
          (resolves (JObj [(''error'', JStr ''not found'')]) 7) no_metadata fresh_tracer)) 0
          ''mcp.tool.success''
     = Some (JBool True)"
proof -
  let ?r = "JObj [(''error'', JStr ''not found'')]"
  let ?s = "mcp_enter ns0 False (JStr ''search'') (JObj []) no_metadata fresh_tracer"
  have ex: "resolves ?r 7 ?s = (Returns ?r, ?s\<lparr>clock := clock ?s + 7\<rparr>)"
    by (simp add: resolves_def)
  have op: "span_end_calls (?s\<lparr>clock := clock ?s + 7\<rparr>) (next_id fresh_tracer) = Some 0"
    by (simp add: span_end_calls_def mcp_enter_simps)
  have e1: "get_prop ?r ''error'' \<noteq> JUndefined" by simp
  have e2: "get_prop ?r ''error'' \<noteq> JNull" by simp
  have n: "next_id fresh_tracer = 0"
    by (simp add: fresh_tracer_def)
  show ?thesis
    using error_field_keeps_status_OK [where executeFn = "resolves ?r 7" and ns = ns0
        and dbg = False and toolName = "JStr ''search''" and toolInput = "JObj []"
        and md = no_metadata and st = fresh_tracer, OF ex op e1 e2]
    by (simp add: n)
qed

text \<open>
  Claim C1 as stated fails: a tool that resolves with \<^verbatim>\<open>{error: 'not found'}\<close> leaves the
  span with status OK.
\<close>

theorem error_field_status_counterexample:
  "fst (traceMCPToolCall ns0 False (JStr ''search'') (JObj [])
          (resolves (JObj [(''error'', JStr ''not found'')]) 7) no_metadata fresh_tracer)
     = Returns (JObj [(''error'', JStr ''not found'')])
   \<and> span_status (snd (traceMCPToolCall ns0 False (JStr ''search'') (JObj [])
          (resolves (JObj [(''error'', JStr ''not found'')]) 7) no_metadata fresh_tracer)) 0
     = Some OK
   \<and> span_status (snd (traceMCPToolCall ns0 False (JStr ''search'') (JObj [])
          (resolves (JObj [(''error'', JStr ''not found'')]) 7) no_metadata fresh_tracer)) 0
     \<noteq> Some ERROR"
  by (simp add: wrapper_eval)

section \<open>The serialized input\<close>

lemma mcp_enter_input:
  "span_attribute (mcp_enter ns dbg toolName toolInput md st) (next_id st) ''mcp.tool.input''
     = map_option JStr (JSON_stringify ns toolInput)"
  by (cases "JSON_stringify ns toolInput")
     (simp_all add: span_attribute_def mcp_enter_simps mcp_start_attributes_def set_attrs_def
      set_attr_def spread_if_def opt_str_def)

lemma substring0_length: "length (substring0 n s) \<le> n"
  by (simp add: substring0_def)

text \<open>
  Claim C4, as the code has it. For every tool input the attribute \<^verbatim>\<open>mcp.tool.input\<close> of
  the wrapper's span is the whole of \<^verbatim>\<open>JSON.stringify(toolInput)\<close>, with no cap on its
  length, whatever \<open>executeFn\<close> yields (provided \<open>executeFn\<close> has not closed the span or
  changed that attribute); the cap of 1000 characters is applied to the serialized result in
  \<^verbatim>\<open>mcp.tool.output\<close>. (An \<^verbatim>\<open>undefined\<close> input has no serialization, and no attribute
  is stored for it.)
\<close>

theorem tool_input_stored_whole:
  assumes ex: "executeFn (mcp_enter ns dbg toolName toolInput md st) = (out, st')"
    and op: "span_end_calls st' (next_id st) = Some 0"
    and keep: "span_attribute st' (next_id st) ''mcp.tool.input''
         = span_attribute (mcp_enter ns dbg toolName toolInput md st) (next_id st) ''mcp.tool.input''"
  shows "span_attribute (snd (traceMCPToolCall ns dbg toolName toolInput executeFn md st))
           (next_id st) ''mcp.tool.input'' = map_option JStr (JSON_stringify ns toolInput)
     \<and> (\<forall>result ser. out = Returns result \<longrightarrow> JSON_stringify ns result = Some ser \<longrightarrow>
           span_attribute (snd (traceMCPToolCall ns dbg toolName toolInput executeFn md st))
             (next_id st) ''mcp.tool.output'' = Some (JStr (substring0 1000 ser))
           \<and> length (substring0 1000 ser) \<le> 1000)"
proof -
  obtain sp where sp: "spans st' (next_id st) = Some sp" "end_calls sp = 0"
    using op by (auto simp: span_end_calls_def)
  then have sp': "spans (st'\<lparr>active := active st\<rparr>) (next_id st) = Some sp"
    by simp
  have inp: "attributes sp ''mcp.tool.input'' = map_option JStr (JSON_stringify ns toolInput)"
    using keep sp by (simp add: mcp_enter_input) (simp add: span_attribute_def)
  have caught: "span_attribute (snd (mcp_catch (next_id st) toolName (clock st) e
        (st'\<lparr>active := active st\<rparr>))) (next_id st) ''mcp.tool.input''
      = map_option JStr (JSON_stringify ns toolInput)" for e
    unfolding mcp_catch_open [OF sp' sp(2)]
    using inp by (simp add: span_attribute_def set_attrs_def set_attr_def)
  show ?thesis
  proof (cases out)
    case (Throws e)
    then have "traceMCPToolCall ns dbg toolName toolInput executeFn md st =
        mcp_catch (next_id st) toolName (clock st) e (st'\<lparr>active := active st\<rparr>)"
      by (simp add: traceMCPToolCall_runs_executeFn ex)
    with caught Throws show ?thesis by simp
  next
    case (Returns result)
    then have run: "traceMCPToolCall ns dbg toolName toolInput executeFn md st =
        mcp_try_rest ns dbg (next_id st) toolName (clock st) result (st'\<lparr>active := active st\<rparr>)"
      by (simp add: traceMCPToolCall_runs_executeFn ex)
    show ?thesis
    proof (cases "JSON_stringify ns result")
      case None
      then have "mcp_try_rest ns dbg (next_id st) toolName (clock st) result (st'\<lparr>active := active st\<rparr>)
          = mcp_catch (next_id st) toolName (clock st) substring_TypeError (st'\<lparr>active := active st\<rparr>)"
        by (simp add: mcp_try_rest_def)
      with run caught None Returns show ?thesis by simp
    next
      case (Some ser)
      obtain spf stf where
        r: "mcp_try_rest ns dbg (next_id st) toolName (clock st) result (st'\<lparr>active := active st\<rparr>)
              = (Returns result, stf)"
        and f: "spans stf (next_id st) = Some spf"
          "attributes spf ''mcp.tool.output'' = Some (JStr (take 1000 ser))"
          "attributes spf ''mcp.tool.input'' = attributes sp ''mcp.tool.input''"
        using mcp_try_rest_open [OF sp' sp(2) Some, of dbg toolName "clock st"] by blast
      show ?thesis
        unfolding run r using f inp Some Returns
        by (simp add: span_attribute_def substring0_def)
    qed
  qed
qed

lemma JSON_quote_plain:
  "length (JSON_quote (replicate n (CHR ''a''))) = n + 2"
  by (induction n) (simp_all add: JSON_quote_def json_escape_char_def)

text \<open>
  Claim C4 as stated fails: a string input of 1001 characters is stored as the 1003
  characters of its serialization.
\<close>

theorem tool_input_cap_counterexample:
  "span_attribute (snd (traceMCPToolCall ns0 False (JStr ''search'')
          (JStr (replicate 1001 (CHR ''a''))) (resolves JNull 7) no_metadata fresh_tracer)) 0
          ''mcp.tool.input''
     = Some (JStr (JSON_quote (replicate 1001 (CHR ''a''))))
   \<and> length (JSON_quote (replicate 1001 (CHR ''a''))) = 1003"
proof -
  have a: "span_attribute (snd (traceMCPToolCall ns0 False (JStr ''search'')
          (JStr (replicate 1001 (CHR ''a''))) (resolves JNull 7) no_metadata fresh_tracer)) 0
          ''mcp.tool.input''
     = Some (JStr (JSON_quote (replicate 1001 (CHR ''a''))))"
    by (simp add: wrapper_eval)
  have b: "length (JSON_quote (replicate 1001 (CHR ''a''))) = 1003"
    by (simp add: JSON_quote_plain)
  from a b show ?thesis by simp
qed

theorem tool_input_stored_whole_witness:
  "span_attribute (snd (traceMCPToolCall ns0 False (JStr ''search'')
          (JStr (replicate 1001 (CHR ''a''))) (resolves (JStr ''ok'') 7) no_metadata fresh_tracer)) 0
          ''mcp.tool.input''
     = Some (JStr (JSON_quote (replicate 1001 (CHR ''a''))))
   \<and> span_attribute (snd (traceMCPToolCall ns0 False (JStr ''search'')
          (JStr (replicate 1001 (CHR ''a''))) (resolves (JStr ''ok'') 7) no_metadata fresh_tracer)) 0
          ''mcp.tool.output''
     = Some (JStr (substring0 1000 (JSON_quote ''ok'')))"
proof -
  let ?i = "JStr (replicate 1001 (CHR ''a''))"
  let ?s = "mcp_enter ns0 False (JStr ''search'') ?i no_metadata fresh_tracer"
  have ex: "resolves (JStr ''ok'') 7 ?s = (Returns (JStr ''ok''), ?s\<lparr>clock := clock ?s + 7\<rparr>)"
    by (simp add: resolves_def)
  have op: "span_end_calls (?s\<lparr>clock := clock ?s + 7\<rparr>) (next_id fresh_tracer) = Some 0"
    by (simp add: span_end_calls_def mcp_enter_simps)
  have keep: "span_attribute (?s\<lparr>clock := clock ?s + 7\<rparr>) (next_id fresh_tracer) ''mcp.tool.input''
      = span_attribute ?s (next_id fresh_tracer) ''mcp.tool.input''"
    by (simp add: span_attribute_def)
  have n: "next_id fresh_tracer = 0"
    by (simp add: fresh_tracer_def)
  show ?thesis
    using tool_input_stored_whole [where executeFn = "resolves (JStr ''ok'') 7" and ns = ns0
        and dbg = False and toolName = "JStr ''search''" and toolInput = ?i
        and md = no_metadata and st = fresh_tracer, OF ex op keep]
    by (simp add: n)
qed

section \<open>Token usage and cost on the span\<close>

text \<open>
  Claim C5. For \<^verbatim>\<open>traceLLMCall('openai', 'gpt-4', ...)\<close> whose \<open>executeFn\<close> resolves with
  the usage \<^verbatim>\<open>{prompt_tokens: 150, completion_tokens: 75}\<close> and no \<^verbatim>\<open>total_tokens\<close>
  (and has not itself closed the wrapper's span), the span is closed with
  \<^verbatim>\<open>llm.response.total_tokens\<close> 225 and \<^verbatim>\<open>llm.response.estimated_cost\<close>
  (150 / 1e6) * 30 + (75 / 1e6) * 60, status OK, and the result is returned.
\<close>

theorem gpt4_usage_scenario:
  assumes ex: "executeFn (llm_enter dbg ''openai'' ''gpt-4'' request md st) = (Returns result, st')"
    and op: "span_end_calls st' (next_id st) = Some 0"
    and us: "usage result = Some \<lparr>prompt_tokens = Some 150, completion_tokens = Some 75,
                                  total_tokens = None\<rparr>"
  shows "fst (traceLLMCall member_prop dbg ''openai'' ''gpt-4'' request executeFn md st) = Returns result
     \<and> span_attribute (snd (traceLLMCall member_prop dbg ''openai'' ''gpt-4'' request executeFn md st))
           (next_id st) ''llm.response.total_tokens'' = Some (JNum 225)
     \<and> span_attribute (snd (traceLLMCall member_prop dbg ''openai'' ''gpt-4'' request executeFn md st))
           (next_id st) ''llm.response.estimated_cost''
         = Some (JNum ((150 / 1000000) * 30 + (75 / 1000000) * 60))
     \<and> span_status (snd (traceLLMCall member_prop dbg ''openai'' ''gpt-4'' request executeFn md st)) (next_id st)
         = Some OK
     \<and> span_end_calls (snd (traceLLMCall member_prop dbg ''openai'' ''gpt-4'' request executeFn md st))
           (next_id st) = Some 1"
proof -
  obtain sp where sp: "spans st' (next_id st) = Some sp" "end_calls sp = 0"
    using op by (auto simp: span_end_calls_def)
  then have sp': "spans (st'\<lparr>active := active st\<rparr>) (next_id st) = Some sp"
    by simp
  have run: "traceLLMCall member_prop dbg ''openai'' ''gpt-4'' request executeFn md st =
      llm_try_rest member_prop dbg (next_id st) ''openai'' ''gpt-4'' (clock st) result (st'\<lparr>active := active st\<rparr>)"
    by (simp add: traceLLMCall_runs_executeFn ex)
  have cost: "calculateLLMCost member_prop ''openai'' ''gpt-4''
        (num_or (case usage result of None \<Rightarrow> None | Some u \<Rightarrow> prompt_tokens u) 0)
        (num_or (case usage result of None \<Rightarrow> None | Some u \<Rightarrow> completion_tokens u) 0)
      = Inr (Finite ((150 / 1000000) * 30 + (75 / 1000000) * 60))"
    using us by (simp add: calculateLLMCost_def modelPricing_def pricing_def num_or_def)
  obtain spf stf where
    r: "llm_try_rest member_prop dbg (next_id st) ''openai'' ''gpt-4'' (clock st) result (st'\<lparr>active := active st\<rparr>)
          = (Returns result, stf)"
    and f: "spans stf (next_id st) = Some spf" "status spf = OK" "end_calls spf = 1"
      "attributes spf ''llm.response.total_tokens'' =
           Some (JNum (num_or (case usage result of None \<Rightarrow> None | Some u \<Rightarrow> total_tokens u)
              (num_or (case usage result of None \<Rightarrow> None | Some u \<Rightarrow> prompt_tokens u) 0
               + num_or (case usage result of None \<Rightarrow> None | Some u \<Rightarrow> completion_tokens u) 0)))"
      "attributes spf ''llm.response.estimated_cost'' =
           Some (number_value (Finite ((150 / 1000000) * 30 + (75 / 1000000) * 60)))"
    using llm_try_rest_open [OF sp' sp(2) cost, of dbg "clock st"] by blast
  have a: "attributes spf ''llm.response.total_tokens'' = Some (JNum 225)"
    using f(4) us by (simp add: num_or_def)
  have b: "attributes spf ''llm.response.estimated_cost''
      = Some (JNum ((150 / 1000000) * 30 + (75 / 1000000) * 60))"
    using f(5) by (simp add: number_value_def)
  show ?thesis
    unfolding run r using f(1,2,3) a b
    by (simp add: span_status_def span_attribute_def span_end_calls_def)
qed

theorem gpt4_usage_scenario_witness:
  "span_attribute (snd (traceLLMCall no_member_props False ''openai'' ''gpt-4''
        \<lparr>messages = None, temperature = JUndefined, max_tokens = JUndefined, stream = JUndefined\<rparr>
        (resolves \<lparr>usage = Some \<lparr>prompt_tokens = Some 150, completion_tokens = Some 75,
                                  total_tokens = None\<rparr>, choices = None\<rparr> 40)
        no_metadata fresh_tracer)) 0 ''llm.response.total_tokens'' = Some (JNum 225)
   \<and> span_attribute (snd (traceLLMCall no_member_props False ''openai'' ''gpt-4''
        \<lparr>messages = None, temperature = JUndefined, max_tokens = JUndefined, stream = JUndefined\<rparr>
        (resolves \<lparr>usage = Some \<lparr>prompt_tokens = Some 150, completion_tokens = Some 75,
                                  total_tokens = None\<rparr>, choices = None\<rparr> 40)
        no_metadata fresh_tracer)) 0 ''llm.response.estimated_cost'' = Some (JNum (9 / 1000))"
proof -
  let ?rq = "\<lparr>messages = None, temperature = JUndefined, max_tokens = JUndefined, stream = JUndefined\<rparr>"
  let ?r = "\<lparr>usage = Some \<lparr>prompt_tokens = Some 150, completion_tokens = Some 75,
                                  total_tokens = None\<rparr>, choices = None\<rparr>"
  let ?s = "llm_enter False ''openai'' ''gpt-4'' ?rq no_metadata fresh_tracer"
  have ex: "resolves ?r 40 ?s = (Returns ?r, ?s\<lparr>clock := clock ?s + 40\<rparr>)"
    by (simp add: resolves_def)
  have op: "span_end_calls (?s\<lparr>clock := clock ?s + 40\<rparr>) (next_id fresh_tracer) = Some 0"
    by (simp add: span_end_calls_def llm_enter_simps)
  have us: "usage ?r = Some \<lparr>prompt_tokens = Some 150, completion_tokens = Some 75,
                                  total_tokens = None\<rparr>"
    by simp
  have n: "next_id fresh_tracer = 0"
    by (simp add: fresh_tracer_def)
  show ?thesis
    using gpt4_usage_scenario [where executeFn = "resolves ?r 40" and dbg = False
        and member_prop = no_member_props
        and request = ?rq and md = no_metadata and st = fresh_tracer, OF ex op us]
    by (simp add: n)
qed

section \<open>Parent linkage\<close>

text \<open>
  No operation of the wrappers changes the parent or the trace of a span: after a wrapper
  returns, every span has the parent and the trace it had when \<open>executeFn\<close> returned.
\<close>

lemma same_identity_refl [simp]: "same_identity s s"
  by (simp add: same_identity_def)

lemma same_identity_trans: "same_identity s t \<Longrightarrow> same_identity t u \<Longrightarrow> same_identity s u"
  by (simp add: same_identity_def)

lemma span_update_identity:
  assumes "\<And>sp. parent_span_id (f sp) = parent_span_id sp \<and> trace_id (f sp) = trace_id sp"
  shows "same_identity (span_update sid f st) st"
  using assms
  by (auto simp: same_identity_def span_update_def span_parent_def span_trace_def
      split: option.splits)

lemma span_ops_identity:
  "same_identity (span_setAttribute sid k v st) st"
  "same_identity (span_setAttributes sid kvs st) st"
  "same_identity (span_setStatus sid code msg st) st"
  "same_identity (span_recordException sid e st) st"
  by (simp_all add: span_setAttribute_def span_setAttributes_def span_setStatus_def
      span_recordException_def span_update_identity)

lemma span_end_identity: "same_identity (span_end sid st) st"
  by (auto simp: same_identity_def span_end_def span_parent_def span_trace_def
      split: option.splits)

lemma console_write_identity: "same_identity (console_write ev st) st"
  by (simp add: same_identity_def console_write_def span_parent_def span_trace_def)

lemma active_upd_identity: "same_identity (st\<lparr>active := a\<rparr>) st"
  by (simp add: same_identity_def span_parent_def span_trace_def)

lemma identity_steps:
  "same_identity s t \<Longrightarrow> same_identity (span_setAttribute sid k v s) t"
  "same_identity s t \<Longrightarrow> same_identity (span_setAttributes sid kvs s) t"
  "same_identity s t \<Longrightarrow> same_identity (span_setStatus sid code msg s) t"
  "same_identity s t \<Longrightarrow> same_identity (span_recordException sid e s) t"
  "same_identity s t \<Longrightarrow> same_identity (span_end sid s) t"
  "same_identity s t \<Longrightarrow> same_identity (console_write ev s) t"
  by (blast intro: same_identity_trans span_ops_identity span_end_identity
      console_write_identity)+

lemma mcp_catch_identity: "same_identity (snd (mcp_catch sid toolName t0 e st)) st"
  unfolding mcp_catch_def Let_def snd_conv
  by (intro identity_steps same_identity_refl)

lemma mcp_result_metadata_identity:
  "same_identity s t \<Longrightarrow> same_identity (mcp_result_metadata sid result s) t"
  unfolding mcp_result_metadata_def Let_def
  by (auto intro: identity_steps)

lemma mcp_try_rest_identity: "same_identity (snd (mcp_try_rest ns dbg sid toolName t0 result st)) st"
proof (cases "JSON_stringify ns result")
  case None
  then show ?thesis by (simp add: mcp_try_rest_def mcp_catch_identity)
next
  case (Some ser)
  then show ?thesis
    unfolding mcp_try_rest_def Let_def
    by (cases dbg)
       (auto intro!: identity_steps mcp_result_metadata_identity)
qed

lemma llm_catch_identity: "same_identity (snd (llm_catch sid provider model t0 e st :: 'a outcome \<times> tracer_state)) st"
  unfolding llm_catch_def Let_def snd_conv
  by (intro identity_steps same_identity_refl)

lemma llm_try_rest_identity:
  "same_identity (snd (llm_try_rest member_prop dbg sid provider model t0 result st)) st"
  unfolding llm_try_rest_def Let_def
  by (cases dbg) (auto intro!: identity_steps llm_catch_identity split: sum.splits)

lemma traceMCPToolCall_identity:
  "same_identity (snd (traceMCPToolCall ns dbg toolName toolInput executeFn md st))
     (snd (executeFn (mcp_enter ns dbg toolName toolInput md st)))"
proof (cases "executeFn (mcp_enter ns dbg toolName toolInput md st)")
  case (Pair out st')
  show ?thesis
  proof (cases out)
    case (Returns result)
    with Pair show ?thesis
      by (auto simp: traceMCPToolCall_runs_executeFn
          intro: same_identity_trans mcp_try_rest_identity active_upd_identity)
  next
    case (Throws e)
    with Pair show ?thesis
      by (auto simp: traceMCPToolCall_runs_executeFn
          intro: same_identity_trans mcp_catch_identity active_upd_identity)
  qed
qed

lemma traceLLMCall_identity:
  "same_identity (snd (traceLLMCall member_prop dbg provider model request executeFn md st))
     (snd (executeFn (llm_enter dbg provider model request md st)))"
proof (cases "executeFn (llm_enter dbg provider model request md st)")
  case (Pair out st')
  show ?thesis
  proof (cases out)
    case (Returns result)
    with Pair show ?thesis
      by (auto simp: traceLLMCall_runs_executeFn
          intro: same_identity_trans llm_try_rest_identity active_upd_identity)
  next
    case (Throws e)
    with Pair show ?thesis
      by (auto simp: traceLLMCall_runs_executeFn
          intro: same_identity_trans llm_catch_identity active_upd_identity)
  qed
qed

text \<open>
  Claim C8. When a wrapper is called while span \<open>A\<close> is the active span, the span \<open>B\<close>
  that it starts has \<open>A\<close>'s span id as its parent and \<open>A\<close>'s trace id, and \<open>B\<close> is the
  active span of the state in which the wrapper runs \<open>executeFn\<close>, so a wrapper called from
  \<open>executeFn\<close> is linked to \<open>B\<close> in the same way. The linkage of \<open>B\<close> is still the same
  when the wrapper has returned, provided \<open>executeFn\<close> itself did not rewrite it.
\<close>

theorem parent_linkage:
  assumes act: "active st = Some (spanContext A)"
    and mp: "span_parent (snd (executeFn (mcp_enter ns dbg toolName toolInput md st))) (next_id st)
           = span_parent (mcp_enter ns dbg toolName toolInput md st) (next_id st)"
    and mt: "span_trace (snd (executeFn (mcp_enter ns dbg toolName toolInput md st))) (next_id st)
           = span_trace (mcp_enter ns dbg toolName toolInput md st) (next_id st)"
    and lp: "span_parent (snd (llmFn (llm_enter dbg provider model request md st))) (next_id st)
           = span_parent (llm_enter dbg provider model request md st) (next_id st)"
    and lt: "span_trace (snd (llmFn (llm_enter dbg provider model request md st))) (next_id st)
           = span_trace (llm_enter dbg provider model request md st) (next_id st)"
  shows "span_parent (mcp_enter ns dbg toolName toolInput md st) (next_id st) = Some (span_id A)
     \<and> span_trace (mcp_enter ns dbg toolName toolInput md st) (next_id st) = Some (trace_id A)
     \<and> active (mcp_enter ns dbg toolName toolInput md st)
         = map_option spanContext (spans (mcp_enter ns dbg toolName toolInput md st) (next_id st))
     \<and> span_parent (snd (traceMCPToolCall ns dbg toolName toolInput executeFn md st)) (next_id st)
         = Some (span_id A)
     \<and> span_trace (snd (traceMCPToolCall ns dbg toolName toolInput executeFn md st)) (next_id st)
         = Some (trace_id A)
     \<and> span_parent (llm_enter dbg provider model request md st) (next_id st) = Some (span_id A)
     \<and> span_trace (llm_enter dbg provider model request md st) (next_id st) = Some (trace_id A)
     \<and> active (llm_enter dbg provider model request md st)
         = map_option spanContext (spans (llm_enter dbg provider model request md st) (next_id st))
     \<and> span_parent (snd (traceLLMCall member_prop dbg provider model request llmFn md st)) (next_id st)
         = Some (span_id A)
     \<and> span_trace (snd (traceLLMCall member_prop dbg provider model request llmFn md st)) (next_id st)
         = Some (trace_id A)"
proof -
  have m: "span_parent (mcp_enter ns dbg toolName toolInput md st) (next_id st) = Some (span_id A)"
    "span_trace (mcp_enter ns dbg toolName toolInput md st) (next_id st) = Some (trace_id A)"
    "active (mcp_enter ns dbg toolName toolInput md st)
         = map_option spanContext (spans (mcp_enter ns dbg toolName toolInput md st) (next_id st))"
    using act
    by (simp_all add: span_parent_def span_trace_def mcp_enter_simps spanContext_def)
  have l: "span_parent (llm_enter dbg provider model request md st) (next_id st) = Some (span_id A)"
    "span_trace (llm_enter dbg provider model request md st) (next_id st) = Some (trace_id A)"
    "active (llm_enter dbg provider model request md st)
         = map_option spanContext (spans (llm_enter dbg provider model request md st) (next_id st))"
    using act
    by (simp_all add: span_parent_def span_trace_def llm_enter_simps spanContext_def)
  have mf: "span_parent (snd (traceMCPToolCall ns dbg toolName toolInput executeFn md st)) (next_id st)
         = Some (span_id A)"
    "span_trace (snd (traceMCPToolCall ns dbg toolName toolInput executeFn md st)) (next_id st)
         = Some (trace_id A)"
    using traceMCPToolCall_identity [of ns dbg toolName toolInput executeFn md st] mp mt m
    by (simp_all add: same_identity_def)
  have lf: "span_parent (snd (traceLLMCall member_prop dbg provider model request llmFn md st)) (next_id st)
         = Some (span_id A)"
    "span_trace (snd (traceLLMCall member_prop dbg provider model request llmFn md st)) (next_id st)
         = Some (trace_id A)"
    using traceLLMCall_identity [of member_prop dbg provider model request llmFn md st] lp lt l
    by (simp_all add: same_identity_def)
  from m l mf lf show ?thesis by simp
qed

theorem parent_linkage_witness:
  "span_parent (snd (traceMCPToolCall ns0 False (JStr ''inner'') (JObj []) (resolves (JStr ''ok'') 3)
       no_metadata
       (mcp_enter ns0 False (JStr ''outer'') (JObj []) no_metadata fresh_tracer))) 1 = Some 0
   \<and> span_trace (snd (traceMCPToolCall ns0 False (JStr ''inner'') (JObj []) (resolves (JStr ''ok'') 3)
       no_metadata
       (mcp_enter ns0 False (JStr ''outer'') (JObj []) no_metadata fresh_tracer))) 1 = Some 0
   \<and> span_parent (snd (traceLLMCall no_member_props False ''openai'' ''gpt-4''
         \<lparr>messages = None, temperature = JUndefined, max_tokens = JUndefined, stream = JUndefined\<rparr>
         (rejects \<lparr>err_name = ''Error'', err_message = ''rate limit''\<rparr> 9) no_metadata
       (mcp_enter ns0 False (JStr ''outer'') (JObj []) no_metadata fresh_tracer))) 1 = Some 0"
proof -
  let ?s = "mcp_enter ns0 False (JStr ''outer'') (JObj []) no_metadata fresh_tracer"
  let ?A = "the (spans ?s (next_id fresh_tracer))"
  let ?rq = "\<lparr>messages = None, temperature = JUndefined, max_tokens = JUndefined, stream = JUndefined\<rparr>"
  let ?E = "\<lparr>err_name = ''Error'', err_message = ''rate limit''\<rparr>"
  let ?m = "mcp_enter ns0 False (JStr ''inner'') (JObj []) no_metadata ?s"
  let ?l = "llm_enter False ''openai'' ''gpt-4'' ?rq no_metadata ?s"
  have act: "active ?s = Some (spanContext ?A)"
    by (simp add: mcp_enter_simps spanContext_def)
  have f: "next_id fresh_tracer = 0" "active fresh_tracer = None"
    by (simp_all add: fresh_tracer_def)
  have a1: "span_id ?A = next_id fresh_tracer"
    by (simp add: mcp_enter_simps)
  have a2: "trace_id ?A = (case active fresh_tracer of None \<Rightarrow> next_id fresh_tracer
                           | Some c \<Rightarrow> ctx_trace_id c)"
    by (simp add: mcp_enter_simps)
  have n: "next_id ?s = 1" "span_id ?A = 0" "trace_id ?A = 0"
    using a1 a2 f by (simp_all add: mcp_enter_simps)
  have mp: "span_parent (snd (resolves (JStr ''ok'') 3 ?m)) (next_id ?s) = span_parent ?m (next_id ?s)"
    by (simp add: resolves_def span_parent_def)
  have mt: "span_trace (snd (resolves (JStr ''ok'') 3 ?m)) (next_id ?s) = span_trace ?m (next_id ?s)"
    by (simp add: resolves_def span_trace_def)
  have lp: "span_parent (snd ((rejects ?E 9 :: tracer_state \<Rightarrow> llm_result outcome \<times> tracer_state) ?l))
         (next_id ?s) = span_parent ?l (next_id ?s)"
    by (simp add: rejects_def span_parent_def)
  have lt: "span_trace (snd ((rejects ?E 9 :: tracer_state \<Rightarrow> llm_result outcome \<times> tracer_state) ?l))
         (next_id ?s) = span_trace ?l (next_id ?s)"
    by (simp add: rejects_def span_trace_def)
  show ?thesis
    using parent_linkage [where st = ?s and A = ?A and ns = ns0 and dbg = False
        and toolName = "JStr ''inner''" and toolInput = "JObj []" and md = no_metadata
        and executeFn = "resolves (JStr ''ok'') 3" and provider = "''openai''"
        and model = "''gpt-4''" and request = ?rq and llmFn = "rejects ?E 9" and member_prop = no_member_props,
        OF act mp mt lp lt]
    by (simp add: n)
qed

text \<open>A tool call made from inside a tool call, end to end: span 1 is the child of span 0.\<close>

lemma nested_tool_calls_linked:
  "span_parent (snd (traceMCPToolCall ns0 False (JStr ''outer'') (JObj [])
       (traceMCPToolCall ns0 False (JStr ''inner'') (JObj []) (resolves (JStr ''ok'') 3) no_metadata)
       no_metadata fresh_tracer)) 1 = Some 0
   \<and> span_trace (snd (traceMCPToolCall ns0 False (JStr ''outer'') (JObj [])
       (traceMCPToolCall ns0 False (JStr ''inner'') (JObj []) (resolves (JStr ''ok'') 3) no_metadata)
       no_metadata fresh_tracer)) 1 = Some 0
   \<and> span_parent (snd (traceMCPToolCall ns0 False (JStr ''outer'') (JObj [])
       (traceMCPToolCall ns0 False (JStr ''inner'') (JObj []) (resolves (JStr ''ok'') 3) no_metadata)
       no_metadata fresh_tracer)) 0 = None"
  by (simp add: wrapper_eval span_parent_def span_trace_def)

section \<open>The wrappers when tracing is disabled\<close>

lemma disabled_stub_never_runs_executeFn:
  "exports_traceMCPToolCall False ns dbg toolName toolInput executeFn md st = (Returns JUndefined, st)"
  "exports_traceLLMCall False member_prop dbg provider model request llmFn md st = (Returns None, st)"
  by (simp_all add: exports_traceMCPToolCall_def exports_traceLLMCall_def)

text \<open>
  Claim C2 against the code. With \<^verbatim>\<open>ENABLE_OTEL\<close> off, the exported tool-call wrapper is the
  stub \<^verbatim>\<open>() => {}\<close>: no span is started, but the closure is not run either and the caller
  gets \<^verbatim>\<open>undefined\<close>, where the closure itself resolves with \<^verbatim>\<open>'found'\<close> and the
  enabled wrapper returns that value.
\<close>

theorem disabled_stub_drops_the_call:
  "exports_traceMCPToolCall False ns0 False (JStr ''search'') (JObj [])
       (resolves (JStr ''found'') 7) no_metadata fresh_tracer
     = (Returns JUndefined, fresh_tracer)
   \<and> resolves (JStr ''found'') 7 fresh_tracer
     = (Returns (JStr ''found''), fresh_tracer\<lparr>clock := 7\<rparr>)
   \<and> fst (exports_traceMCPToolCall True ns0 False (JStr ''search'') (JObj [])
       (resolves (JStr ''found'') 7) no_metadata fresh_tracer) = Returns (JStr ''found'')"
  by (simp add: exports_traceMCPToolCall_def wrapper_eval)

section \<open>Console interception\<close>

text \<open>
  Claim C9. For each of the five intercepted methods (log, info, warn, error, debug) the
  installed function calls the original console method with the arguments as they are. For
  warn and error it then starts and ends one span named \<^verbatim>\<open>console.<method>\<close> whose
  \<^verbatim>\<open>log.message\<close> is the joined message cut to 500 characters; for log, info and debug the
  tracer is left as it was, so no span is produced.
\<close>

theorem console_interception:
  assumes m: "method \<in> set [''log'', ''info'', ''warn'', ''error'', ''debug'']"
  shows "console_calls (instrumentConsole ns method args bs) = console_calls bs @ [(method, args)]
     \<and> (if method = ''warn'' \<or> method = ''error''
         then next_id (tracer (instrumentConsole ns method args bs)) = Suc (next_id (tracer bs))
            \<and> map_option span_name (spans (tracer (instrumentConsole ns method args bs))
                  (next_id (tracer bs))) = Some (''console.'' @ method)
            \<and> span_attribute (tracer (instrumentConsole ns method args bs)) (next_id (tracer bs))
                  ''log.message'' = Some (JStr (substring0 500 (console_message ns args)))
            \<and> length (substring0 500 (console_message ns args)) \<le> 500
            \<and> span_attribute (tracer (instrumentConsole ns method args bs)) (next_id (tracer bs))
                  ''log.level'' = Some (JStr method)
            \<and> span_end_calls (tracer (instrumentConsole ns method args bs)) (next_id (tracer bs))
                  = Some 1
         else tracer (instrumentConsole ns method args bs) = tracer bs)"
  using m
  by (auto simp: instrumentConsole_def console_wrapper_def originalConsole_def Let_def
      tracer_startSpan_def span_end_def span_attribute_def span_end_calls_def set_attrs_def
      set_attr_def substring0_def)

theorem console_interception_witness:
  "console_calls (instrumentConsole ns0 ''warn'' [JStr ''disk'', JNull]
       \<lparr>console_calls = [], tracer = fresh_tracer, location_href = ''http://localhost/''\<rparr>)
     = [(''warn'', [JStr ''disk'', JNull])]
   \<and> span_attribute (tracer (instrumentConsole ns0 ''warn'' [JStr ''disk'', JNull]
       \<lparr>console_calls = [], tracer = fresh_tracer, location_href = ''http://localhost/''\<rparr>)) 0
       ''log.message'' = Some (JStr ''disk null'')
   \<and> tracer (instrumentConsole ns0 ''log'' [JStr ''disk'', JNull]
       \<lparr>console_calls = [], tracer = fresh_tracer, location_href = ''http://localhost/''\<rparr>)
     = fresh_tracer"
proof -
  let ?bs = "\<lparr>console_calls = [], tracer = fresh_tracer, location_href = ''http://localhost/''\<rparr>"
  have w: "''warn'' \<in> set [''log'', ''info'', ''warn'', ''error'', ''debug'']" by simp
  have l: "''log'' \<in> set [''log'', ''info'', ''warn'', ''error'', ''debug'']" by simp
  have n: "next_id fresh_tracer = 0" by (simp add: fresh_tracer_def)
  have msg: "substring0 500 (console_message ns0 [JStr ''disk'', JNull]) = ''disk null''"
    by (simp add: console_message_def substring0_def)
  show ?thesis
    using console_interception [OF w, of ns0 "[JStr ''disk'', JNull]" ?bs]
      console_interception [OF l, of ns0 "[JStr ''disk'', JNull]" ?bs]
    by (simp add: n msg)
qed

section \<open>The proxy\<close>

lemma startsWith_tool: "startsWith s ''tool_'' = (take 5 s = ''tool_'')"
  by (simp add: startsWith_def eval_nat_numeral)

text \<open>
  What the proxy does hold to: a property that is not a function is returned as it is; a
  method whose name is not \<^verbatim>\<open>callTool\<close>, not \<^verbatim>\<open>call_tool\<close> and does not start with
  \<^verbatim>\<open>tool_\<close> is called with the same arguments and settles with the original's outcome, in
  the state the original leaves; a method with one of those names goes through the exported
  \<^verbatim>\<open>traceMCPToolCall\<close>, with the first argument as the tool name for \<^verbatim>\<open>callTool\<close> and
  \<^verbatim>\<open>call_tool\<close> and the property name otherwise. In each case a method's outcome arrives
  through a promise; a method under a symbol key is not called at all.
\<close>

lemma proxy_value:
  "mcpClient key = Value v \<Longrightarrow>
     instrumentMCPClient ENABLE_OTEL ns dbg mcpClient options key = Value v"
  by (simp add: instrumentMCPClient_def)

lemma proxy_other_method:
  assumes "mcpClient (Name n) = Method originalMethod" "\<not> isToolCall n"
    and "originalMethod args st = (r, st')"
  shows "invoke (instrumentMCPClient ENABLE_OTEL ns dbg mcpClient options (Name n)) args st
           = (ViaPromise (settled r), st')"
  using assms
  by (simp add: instrumentMCPClient_def invoke_def async_function_def awaited_def)

lemma proxy_tool_method:
  assumes "mcpClient (Name n) = Method originalMethod" "isToolCall n"
  shows "invoke (instrumentMCPClient ENABLE_OTEL ns dbg mcpClient options (Name n)) args st
           = async_function
               (exports_traceMCPToolCall ENABLE_OTEL ns dbg
                  (if n = ''callTool'' \<or> n = ''call_tool'' then arg_at args 0 else JStr n)
                  (proxy_toolInput n args) (awaited (originalMethod args)) (proxy_metadata options))
               st"
  using assms
  by (simp add: instrumentMCPClient_def invoke_def async_function_def proxy_toolName_def)

lemma proxy_symbol_method:
  assumes "mcpClient (Symbol d) = Method originalMethod"
  shows "invoke (instrumentMCPClient ENABLE_OTEL ns dbg mcpClient options (Symbol d)) args st
           = (ViaPromise (Throws startsWith_TypeError), st)"
  using assms
  by (simp add: instrumentMCPClient_def invoke_def async_function_def)

lemma isToolCall_names:
  "isToolCall n \<longleftrightarrow> n = ''callTool'' \<or> n = ''call_tool'' \<or> take 5 n = ''tool_''"
  by (simp add: isToolCall_def startsWith_tool)

text \<open>
  Claim C10 against the code. The trap wraps every function property in an
  \<^verbatim>\<open>async function\<close>, not only the asynchronous ones its comment speaks of. The synchronous
  method \<^verbatim>\<open>getServerVersion\<close>, which is no tool call, returns \<^verbatim>\<open>'1.0'\<close> on the client;
  on the proxy the same call returns a promise, not that result.
\<close>

theorem proxy_turns_sync_result_into_promise:
  "invoke (sample_client (Name ''getServerVersion'')) [] fresh_tracer
     = (Direct (Returns (JStr ''1.0'')), fresh_tracer)
   \<and> invoke (instrumentMCPClient True ns0 False sample_client sample_options
        (Name ''getServerVersion'')) [] fresh_tracer
     = (ViaPromise (Returns (JStr ''1.0'')), fresh_tracer)"
  by (simp add: sample_client_def instrumentMCPClient_def invoke_def async_function_def
      awaited_def isToolCall_def startsWith_def)

text \<open>The asynchronous methods of the same client, through the proxy.\<close>

lemma proxy_sample_calls:
  "instrumentMCPClient True ns0 False sample_client sample_options (Name ''version'')
     = Value (JStr ''1.0'')"
  "invoke (instrumentMCPClient True ns0 False sample_client sample_options (Name ''listTools'')) []
        fresh_tracer = (ViaPromise (Returns (JArr [])), fresh_tracer\<lparr>clock := 2\<rparr>)"
  "fst (invoke (instrumentMCPClient True ns0 False sample_client sample_options (Name ''callTool''))
        [JStr ''search'', JObj []] fresh_tracer)
     = ViaPromise (Returns (JObj [(''name'', JStr ''pump'')]))"
  "map_option span_name (spans (snd (invoke
        (instrumentMCPClient True ns0 False sample_client sample_options (Name ''callTool''))
        [JStr ''search'', JObj []] fresh_tracer)) 0) = Some ''MCP Tool: search''"
  by (simp_all add: sample_client_def sample_options_def instrumentMCPClient_def invoke_def
      async_function_def awaited_def isToolCall_def startsWith_def
      exports_traceMCPToolCall_def arg_at_def proxy_toolInput_def proxy_toolName_def js_or_def
      proxy_metadata_def wrapper_eval)

end
